theory Spec2Isabelle
  imports Main "HOL-Library.Product_Lexorder"
begin

section \<open>Data model (types.ts, migrations 0001--0003)\<close>

text \<open>
  Timestamps (TIMESTAMPTZ, JS Date) are milliseconds since the epoch. Identifiers, digests
  and URIs are strings. JSONB values are modelled by \<open>json\<close>; a JSON object is an
  association list.
\<close>

type_synonym timestamp = int

datatype json =
    JNull
  | JBool bool
  | JNum int
  | JStr string
  | JArr "json list"
  | JObj "(string \<times> json) list"

text \<open>
  Errors that reach the caller. The first four are the PostgreSQL error classes the
  schema can raise (23505, 23503, 23514, 22003), each carrying the constraint's name;
  \<open>QueryResultError\<close> is what the driver's oneOrNone raises when a query returns more
  than one row; \<open>IdempotencyConflict\<close> is the error thrown by startRun (runner.ts), \<open>HttpError\<close> the
  one thrown by collectUrl for a non-2xx response, \<open>FetchError\<close> whatever the injected
  fetch function throws.
\<close>

datatype error =
    UniqueViolation string
  | ForeignKeyViolation string
  | CheckViolation string
  | NumericValueOutOfRange
  | QueryResultError
  | IdempotencyConflict string
  | HttpError int string
  | FetchError string

datatype sensitivity = Private | Public | Secret | Restricted

datatype run_kind = Cli | Agent | Workflow | Trigger

datatype run_status = Running | Succeeded | Failed | Canceled

datatype log_level = Debug | Info | Warn | Error

datatype task_status = Queued | Leased | TaskRunning | TaskSucceeded | TaskFailed | Dead

record blob =
  blob_id :: string
  size_bytes :: nat
  mime_type :: "string option"
  blob_created_at :: timestamp

record item =
  item_id :: string
  item_type :: string
  title :: "string option"
  source_type :: string
  source_id :: string
  external_ref :: "string option"
  canonical_uri :: "string option"
  content_sha256 :: "string option"
  observed_at :: "timestamp option"
  tags :: "string list"
  item_sensitivity :: sensitivity
  item_blob_id :: "string option"
  text_content :: "string option"
  item_meta :: json
  item_created_at :: timestamp
  item_updated_at :: timestamp

record edge =
  edge_id :: string
  from_item_id :: string
  to_item_id :: string
  rel :: string
  edge_meta :: json
  edge_created_at :: timestamp

record run =
  run_id :: string
  parent_run_id :: "string option"
  kind :: run_kind
  actor :: "string option"
  tool_name :: "string option"
  tool_version :: "string option"
  idempotency_key :: "string option"
  normalization_version :: string
  collector_version :: "string option"
  run_status :: run_status
  started_at :: timestamp
  finished_at :: "timestamp option"
  run_error :: "string option"
  metrics :: "(string \<times> json) list"

record run_log =
  log_id :: string
  log_run_id :: string
  level :: log_level
  message :: string
  log_data :: json
  log_created_at :: timestamp

record task =
  task_id :: string
  task_run_id :: "string option"
  task_type :: string
  payload :: json
  task_status :: task_status
  priority :: int
  due_at :: timestamp
  attempts :: int
  max_attempts :: int
  locked_until :: "timestamp option"
  locked_by :: "string option"
  last_error :: "string option"
  task_created_at :: timestamp
  task_updated_at :: timestamp

text \<open>
  The store: one list of rows per table, in insertion order. \<open>run_inputs\<close> and
  \<open>run_outputs\<close> are the join tables (run id, item id).
\<close>

record db =
  blobs :: "blob list"
  items :: "item list"
  edges :: "edge list"
  runs :: "run list"
  run_inputs :: "(string \<times> string) list"
  run_outputs :: "(string \<times> string) list"
  run_logs :: "run_log list"
  tasks :: "task list"

definition empty_db :: db where
  "empty_db = \<lparr>blobs = [], items = [], edges = [], runs = [], run_inputs = [],
     run_outputs = [], run_logs = [], tasks = []\<rparr>"

text \<open>Every operation returns its outcome together with the store it leaves behind.\<close>

type_synonym 'a result = "(error + 'a) \<times> db"

text \<open>The range of a PostgreSQL INT column.\<close>

definition int4 :: "int \<Rightarrow> bool" where
  "int4 n \<longleftrightarrow> - 2147483648 \<le> n \<and> n \<le> 2147483647"

section \<open>BlobStore (sha256.ts, store.blob.ts)\<close>

text \<open>
  \<open>sha256\<close> prefixes the hex digest computed by the platform's crypto library; the
  digest function itself is the parameter \<open>H\<close>.
\<close>

definition sha256 :: "(nat list \<Rightarrow> string) \<Rightarrow> nat list \<Rightarrow> string" where
  "sha256 H bytes = ''sha256:'' @ H bytes"

record PutBlobResult =
  blobId :: string
  inserted :: bool

text \<open>
  putBlob: the INSERT fails with a unique violation on the primary key when a row with
  that blob id exists; the catch turns that into \<open>inserted = False\<close>.
\<close>

definition putBlob ::
  "(nat list \<Rightarrow> string) \<Rightarrow> db \<Rightarrow> timestamp \<Rightarrow> nat list \<Rightarrow> string option \<Rightarrow> PutBlobResult result" where
  "putBlob H d now bytes mimeType =
     (let bid = sha256 H bytes in
      if bid \<in> set (map blob_id (blobs d))
      then (Inr \<lparr>blobId = bid, inserted = False\<rparr>, d)
      else (Inr \<lparr>blobId = bid, inserted = True\<rparr>,
            d\<lparr>blobs := blobs d @
              [\<lparr>blob_id = bid, size_bytes = length bytes, mime_type = mimeType,
                blob_created_at = now\<rparr>]\<rparr>))"

definition getBlob :: "db \<Rightarrow> string \<Rightarrow> blob option" where
  "getBlob d bid = find (\<lambda>b. blob_id b = bid) (blobs d)"

section \<open>TaskQueue (store.tasks.ts)\<close>

record EnqueueTaskInput =
  in_type :: string
  in_payload :: json
  in_dueAt :: "timestamp option"
  in_priority :: "int option"
  in_runId :: "string option"
  in_maxAttempts :: "int option"

text \<open>
  enqueueTask: \<open>taskId\<close> is the value \<open>ulid()\<close> returned. The INSERT is rejected when an
  INT column is out of range, when the primary key exists, or when \<open>run_id\<close> names no
  run.
\<close>

definition enqueueTask :: "db \<Rightarrow> string \<Rightarrow> timestamp \<Rightarrow> EnqueueTaskInput \<Rightarrow> task result" where
  "enqueueTask d taskId now inp =
     (let row = \<lparr>task_id = taskId, task_run_id = in_runId inp, task_type = in_type inp,
                 payload = in_payload inp, task_status = Queued,
                 priority = (case in_priority inp of None \<Rightarrow> 0 | Some p \<Rightarrow> p),
                 due_at = (case in_dueAt inp of None \<Rightarrow> now | Some t \<Rightarrow> t),
                 attempts = 0,
                 max_attempts = (case in_maxAttempts inp of None \<Rightarrow> 10 | Some m \<Rightarrow> m),
                 locked_until = None, locked_by = None, last_error = None,
                 task_created_at = now, task_updated_at = now\<rparr>
      in if \<not> int4 (priority row) \<or> \<not> int4 (max_attempts row)
         then (Inl NumericValueOutOfRange, d)
         else if taskId \<in> set (map task_id (tasks d))
         then (Inl (UniqueViolation ''tasks_pkey''), d)
         else if (case in_runId inp of None \<Rightarrow> False
                  | Some r \<Rightarrow> r \<notin> set (map run_id (runs d)))
         then (Inl (ForeignKeyViolation ''tasks_run_id_fkey''), d)
         else (Inr row, d\<lparr>tasks := tasks d @ [row]\<rparr>))"

text \<open>The WHERE clause of the lease query.\<close>

definition lease_eligible :: "timestamp \<Rightarrow> task \<Rightarrow> bool" where
  "lease_eligible now t \<longleftrightarrow>
     task_status t = Queued \<and> due_at t \<le> now \<and>
     (case locked_until t of None \<Rightarrow> True | Some u \<Rightarrow> u < now)"

text \<open>
  The CTE \<open>next\<close>: eligible rows, ORDER BY priority DESC, due_at ASC, LIMIT 1. Rows that
  tie keep their table order (the sort is stable). FOR UPDATE SKIP LOCKED skips nothing
  when no other transaction is in flight.
\<close>

definition lease_next :: "timestamp \<Rightarrow> task list \<Rightarrow> task list" where
  "lease_next now ts =
     take 1 (sort_key (\<lambda>t. (- priority t, due_at t)) (filter (lease_eligible now) ts))"

definition lease_row :: "string \<Rightarrow> int \<Rightarrow> timestamp \<Rightarrow> task \<Rightarrow> task" where
  "lease_row workerId leaseMs now t =
     t\<lparr>task_status := Leased, locked_until := Some (now + leaseMs),
       locked_by := Some workerId, task_updated_at := now\<rparr>"

definition leaseNextTask :: "db \<Rightarrow> string \<Rightarrow> int \<Rightarrow> timestamp \<Rightarrow> task option result" where
  "leaseNextTask d workerId leaseMs now =
     (if \<not> int4 leaseMs then (Inl NumericValueOutOfRange, d)
      else case lease_next now (tasks d) of
        [] \<Rightarrow> (Inr None, d)
      | n # _ \<Rightarrow>
          (Inr (Some (lease_row workerId leaseMs now n)),
           d\<lparr>tasks := map (\<lambda>t. if task_id t = task_id n
                                 then lease_row workerId leaseMs now t else t) (tasks d)\<rparr>))"

definition markTaskRunning :: "db \<Rightarrow> string \<Rightarrow> timestamp \<Rightarrow> unit result" where
  "markTaskRunning d taskId now =
     (Inr (), d\<lparr>tasks := map (\<lambda>t. if task_id t = taskId
         then t\<lparr>task_status := TaskRunning, task_updated_at := now\<rparr> else t) (tasks d)\<rparr>)"

definition markTaskSucceeded :: "db \<Rightarrow> string \<Rightarrow> timestamp \<Rightarrow> unit result" where
  "markTaskSucceeded d taskId now =
     (Inr (), d\<lparr>tasks := map (\<lambda>t. if task_id t = taskId
         then t\<lparr>task_status := TaskSucceeded, task_updated_at := now\<rparr> else t) (tasks d)\<rparr>)"

text \<open>
  The row update of markTaskFailed; every right-hand side reads the old row.
\<close>

definition fail_row :: "string \<Rightarrow> timestamp \<Rightarrow> task \<Rightarrow> task" where
  "fail_row err now t =
     t\<lparr>task_status := (if attempts t + 1 \<ge> max_attempts t then Dead else Queued),
       attempts := attempts t + 1,
       last_error := Some err,
       locked_until := None,
       locked_by := None,
       task_updated_at := now\<rparr>"

text \<open>
  markTaskFailed: \<open>attempts + 1\<close> is INT arithmetic, which raises instead of wrapping;
  the statement then changes nothing.
\<close>

definition markTaskFailed :: "db \<Rightarrow> string \<Rightarrow> string \<Rightarrow> timestamp \<Rightarrow> unit result" where
  "markTaskFailed d taskId err now =
     (if \<exists>t \<in> set (tasks d). task_id t = taskId \<and> \<not> int4 (attempts t + 1)
      then (Inl NumericValueOutOfRange, d)
      else (Inr (), d\<lparr>tasks := map (\<lambda>t. if task_id t = taskId
              then fail_row err now t else t) (tasks d)\<rparr>))"

definition getTask :: "db \<Rightarrow> string \<Rightarrow> task option" where
  "getTask d taskId = find (\<lambda>t. task_id t = taskId) (tasks d)"

section \<open>ItemCatalog (store.items.ts)\<close>

record CreateItemInput =
  ci_type :: string
  ci_title :: "string option"
  ci_source_type :: string
  ci_source_id :: string
  ci_external_ref :: "string option"
  ci_canonical_uri :: "string option"
  ci_content_sha256 :: "string option"
  ci_observed_at :: "timestamp option"
  ci_tags :: "string list option"
  ci_sensitivity :: "sensitivity option"
  ci_blob_id :: "string option"
  ci_text_content :: "string option"
  ci_meta :: "json option"

text \<open>The CHECK constraint \<open>items_one_payload\<close> of the items table.\<close>

definition items_one_payload :: "string option \<Rightarrow> string option \<Rightarrow> bool" where
  "items_one_payload b t \<longleftrightarrow> (b \<noteq> None \<and> t = None) \<or> (b = None \<and> t \<noteq> None)"

text \<open>
  createItem has no validation of its own: the INSERT is rejected by the CHECK
  constraint, by the primary key, or by the foreign key from \<open>blob_id\<close> to blobs, which
  PostgreSQL tests in that order.
\<close>

definition createItem :: "db \<Rightarrow> string \<Rightarrow> timestamp \<Rightarrow> CreateItemInput \<Rightarrow> item result" where
  "createItem d itemId now inp =
     (let row = \<lparr>item_id = itemId, item_type = ci_type inp, title = ci_title inp,
                 source_type = ci_source_type inp, source_id = ci_source_id inp,
                 external_ref = ci_external_ref inp, canonical_uri = ci_canonical_uri inp,
                 content_sha256 = ci_content_sha256 inp, observed_at = ci_observed_at inp,
                 tags = (case ci_tags inp of None \<Rightarrow> [] | Some ts \<Rightarrow> ts),
                 item_sensitivity = (case ci_sensitivity inp of None \<Rightarrow> Private | Some s \<Rightarrow> s),
                 item_blob_id = ci_blob_id inp, text_content = ci_text_content inp,
                 item_meta = (case ci_meta inp of None \<Rightarrow> JObj [] | Some m \<Rightarrow> m),
                 item_created_at = now, item_updated_at = now\<rparr>
      in if \<not> items_one_payload (ci_blob_id inp) (ci_text_content inp)
         then (Inl (CheckViolation ''items_one_payload''), d)
         else if itemId \<in> set (map item_id (items d))
         then (Inl (UniqueViolation ''items_pkey''), d)
         else if (case ci_blob_id inp of None \<Rightarrow> False
                  | Some b \<Rightarrow> b \<notin> set (map blob_id (blobs d)))
         then (Inl (ForeignKeyViolation ''items_blob_id_fkey''), d)
         else (Inr row, d\<lparr>items := items d @ [row]\<rparr>))"

definition findItem :: "db \<Rightarrow> string \<Rightarrow> item option" where
  "findItem d itemId = find (\<lambda>i. item_id i = itemId) (items d)"

text \<open>
  The two match queries: a filter on one column, ORDER BY created_at DESC (rows with
  the same timestamp keep their table order).
\<close>

definition findItemsByCanonicalUri :: "db \<Rightarrow> string \<Rightarrow> item list" where
  "findItemsByCanonicalUri d canonicalUri =
     sort_key (\<lambda>i. - item_created_at i) (filter (\<lambda>i. canonical_uri i = Some canonicalUri) (items d))"

definition findItemsByContentSha256 :: "db \<Rightarrow> string \<Rightarrow> item list" where
  "findItemsByContentSha256 d contentSha256 =
     sort_key (\<lambda>i. - item_created_at i) (filter (\<lambda>i. content_sha256 i = Some contentSha256) (items d))"

section \<open>LineageGraph (store.edges.ts)\<close>

record CreateEdgeInput =
  ce_from_item_id :: string
  ce_to_item_id :: string
  ce_rel :: string
  ce_meta :: "json option"

definition createEdge :: "db \<Rightarrow> string \<Rightarrow> timestamp \<Rightarrow> CreateEdgeInput \<Rightarrow> edge result" where
  "createEdge d edgeId now inp =
     (let row = \<lparr>edge_id = edgeId, from_item_id = ce_from_item_id inp,
                 to_item_id = ce_to_item_id inp, rel = ce_rel inp,
                 edge_meta = (case ce_meta inp of None \<Rightarrow> JObj [] | Some m \<Rightarrow> m),
                 edge_created_at = now\<rparr>
      in if edgeId \<in> set (map edge_id (edges d))
         then (Inl (UniqueViolation ''edges_pkey''), d)
         else if ce_from_item_id inp \<notin> set (map item_id (items d))
         then (Inl (ForeignKeyViolation ''edges_from_item_id_fkey''), d)
         else if ce_to_item_id inp \<notin> set (map item_id (items d))
         then (Inl (ForeignKeyViolation ''edges_to_item_id_fkey''), d)
         else (Inr row, d\<lparr>edges := edges d @ [row]\<rparr>))"

section \<open>RunLedger (store.runs.ts)\<close>

record CreateRunInput =
  cr_kind :: run_kind
  cr_actor :: "string option"
  cr_toolName :: "string option"
  cr_toolVersion :: "string option"
  cr_idempotencyKey :: "string option"
  cr_parentRunId :: "string option"
  cr_normalizationVersion :: "string option"
  cr_collectorVersion :: "string option"

text \<open>
  An INSERT into runs: the primary key, the partial unique index
  \<open>idx_runs_idempotency_key\<close> (only rows with a key take part) and the foreign key of
  \<open>parent_run_id\<close>.
\<close>

definition insert_run :: "db \<Rightarrow> run \<Rightarrow> run result" where
  "insert_run d row =
     (if run_id row \<in> set (map run_id (runs d))
      then (Inl (UniqueViolation ''runs_pkey''), d)
      else if idempotency_key row \<noteq> None \<and>
              idempotency_key row \<in> set (map idempotency_key (runs d))
      then (Inl (UniqueViolation ''idx_runs_idempotency_key''), d)
      else if (case parent_run_id row of None \<Rightarrow> False
               | Some p \<Rightarrow> p \<notin> set (map run_id (runs d)))
      then (Inl (ForeignKeyViolation ''runs_parent_run_id_fkey''), d)
      else (Inr row, d\<lparr>runs := runs d @ [row]\<rparr>))"

definition createRun :: "db \<Rightarrow> string \<Rightarrow> timestamp \<Rightarrow> CreateRunInput \<Rightarrow> run result" where
  "createRun d runId now inp =
     insert_run d
       \<lparr>run_id = runId, parent_run_id = cr_parentRunId inp, kind = cr_kind inp,
        actor = cr_actor inp, tool_name = cr_toolName inp, tool_version = cr_toolVersion inp,
        idempotency_key = cr_idempotencyKey inp,
        normalization_version =
          (case cr_normalizationVersion inp of None \<Rightarrow> ''v1'' | Some v \<Rightarrow> v),
        collector_version = cr_collectorVersion inp,
        run_status = Running, started_at = now, finished_at = None, run_error = None,
        metrics = []\<rparr>"

text \<open>An INSERT into one of the join tables run_inputs and run_outputs.\<close>

definition insert_link ::
  "string \<Rightarrow> db \<Rightarrow> (string \<times> string) list \<Rightarrow> string \<Rightarrow> string \<Rightarrow> error option" where
  "insert_link tbl d rows runId itemId =
     (if (runId, itemId) \<in> set rows then Some (UniqueViolation (tbl @ ''_pkey''))
      else if runId \<notin> set (map run_id (runs d))
      then Some (ForeignKeyViolation (tbl @ ''_run_id_fkey''))
      else if itemId \<notin> set (map item_id (items d))
      then Some (ForeignKeyViolation (tbl @ ''_item_id_fkey''))
      else None)"

definition addRunInput :: "db \<Rightarrow> string \<Rightarrow> string \<Rightarrow> unit result" where
  "addRunInput d runId itemId =
     (case insert_link ''run_inputs'' d (run_inputs d) runId itemId of
        Some e \<Rightarrow> (Inl e, d)
      | None \<Rightarrow> (Inr (), d\<lparr>run_inputs := run_inputs d @ [(runId, itemId)]\<rparr>))"

definition addRunOutput :: "db \<Rightarrow> string \<Rightarrow> string \<Rightarrow> unit result" where
  "addRunOutput d runId itemId =
     (case insert_link ''run_outputs'' d (run_outputs d) runId itemId of
        Some e \<Rightarrow> (Inl e, d)
      | None \<Rightarrow> (Inr (), d\<lparr>run_outputs := run_outputs d @ [(runId, itemId)]\<rparr>))"

definition appendRunLog ::
  "db \<Rightarrow> string \<Rightarrow> timestamp \<Rightarrow> string \<Rightarrow> log_level \<Rightarrow> string \<Rightarrow> json option \<Rightarrow> unit result" where
  "appendRunLog d logId now runId lvl msg data =
     (if logId \<in> set (map log_id (run_logs d))
      then (Inl (UniqueViolation ''run_logs_pkey''), d)
      else if runId \<notin> set (map run_id (runs d))
      then (Inl (ForeignKeyViolation ''run_logs_run_id_fkey''), d)
      else (Inr (), d\<lparr>run_logs := run_logs d @
              [\<lparr>log_id = logId, log_run_id = runId, level = lvl, message = msg,
                log_data = (case data of None \<Rightarrow> JObj [] | Some j \<Rightarrow> j),
                log_created_at = now\<rparr>]\<rparr>))"

text \<open>
  The status a run can be finished with: the parameter type of finishRun
  (\<open>'succeeded' | 'failed' | 'canceled'\<close>).
\<close>

datatype terminal_status = FinSucceeded | FinFailed | FinCanceled

fun status_of :: "terminal_status \<Rightarrow> run_status" where
  "status_of FinSucceeded = Succeeded"
| "status_of FinFailed = Failed"
| "status_of FinCanceled = Canceled"

text \<open>
  finishRun (store.runs.ts): one UPDATE whose WHERE clause is \<open>run_id = $1\<close>; an UPDATE
  that matches no row is not an error.
\<close>

definition finishRun ::
  "db \<Rightarrow> string \<Rightarrow> terminal_status \<Rightarrow> string option \<Rightarrow> timestamp \<Rightarrow> unit result" where
  "finishRun d runId st err now =
     (Inr (), d\<lparr>runs := map (\<lambda>r. if run_id r = runId
         then r\<lparr>run_status := status_of st, finished_at := Some now, run_error := err\<rparr>
         else r) (runs d)\<rparr>)"

definition getRun :: "db \<Rightarrow> string \<Rightarrow> run option" where
  "getRun d runId = find (\<lambda>r. run_id r = runId) (runs d)"

section \<open>Collector run lifecycle (collect/runner.ts)\<close>

record StartRunInput =
  collectorType :: string
  collectorName :: string
  normalizationVersion :: string
  idempotencyKey :: string
  configSnapshot :: json

record StartRunResult =
  sr_runId :: string
  sr_status :: run_status
  sr_createdAt :: timestamp

text \<open>
  startRun: SELECT the runs with this idempotency key through oneOrNone (no row: null;
  one row: the row; more: the driver raises), throw the conflict when there is one,
  otherwise INSERT the run with status 'running'. \<open>runId\<close> is the value \<open>ulid()\<close> returned.
\<close>

definition startRun :: "db \<Rightarrow> string \<Rightarrow> timestamp \<Rightarrow> StartRunInput \<Rightarrow> StartRunResult result" where
  "startRun d runId now inp =
     (case filter (\<lambda>r. idempotency_key r = Some (idempotencyKey inp)) (runs d) of
        existingRun # [] \<Rightarrow> (Inl (IdempotencyConflict (run_id existingRun)), d)
      | _ # _ # _ \<Rightarrow> (Inl QueryResultError, d)
      | [] \<Rightarrow>
         (case insert_run d
             \<lparr>run_id = runId, parent_run_id = None, kind = Cli, actor = None,
              tool_name = Some (collectorName inp), tool_version = Some ''1.0.0'',
              idempotency_key = Some (idempotencyKey inp),
              normalization_version = normalizationVersion inp,
              collector_version = Some (collectorType inp),
              run_status = Running, started_at = now, finished_at = None, run_error = None,
              metrics = [(''configSnapshot'', configSnapshot inp)]\<rparr> of
            (Inl e, d') \<Rightarrow> (Inl e, d')
          | (Inr _, d') \<Rightarrow>
              (Inr \<lparr>sr_runId = runId, sr_status = Running, sr_createdAt = now\<rparr>, d')))"

text \<open>appendRunLog of runner.ts, exported as appendCollectorRunLog.\<close>

definition appendCollectorRunLog ::
  "db \<Rightarrow> string \<Rightarrow> timestamp \<Rightarrow> string \<Rightarrow> log_level \<Rightarrow> string \<Rightarrow> json option \<Rightarrow> unit result" where
  "appendCollectorRunLog d logId now runId lvl msg meta = appendRunLog d logId now runId lvl msg meta"

record RunStats =
  urlsAttempted :: int
  urlsSucceeded :: int
  itemsCreated :: int
  bytesDownloaded :: int

definition stats_json :: "RunStats \<Rightarrow> json" where
  "stats_json s = JObj [(''urlsAttempted'', JNum (urlsAttempted s)),
     (''urlsSucceeded'', JNum (urlsSucceeded s)), (''itemsCreated'', JNum (itemsCreated s)),
     (''bytesDownloaded'', JNum (bytesDownloaded s))]"

text \<open>\<open>jsonb_set(obj, '{key}', v)\<close> on an object: replace the key's value, or add the key.\<close>

definition jsonb_set :: "(string \<times> json) list \<Rightarrow> string \<Rightarrow> json \<Rightarrow> (string \<times> json) list" where
  "jsonb_set obj k v =
     (if k \<in> set (map fst obj) then map (\<lambda>(k', v'). if k' = k then (k', v) else (k', v')) obj
      else obj @ [(k, v)])"

text \<open>finishRun of runner.ts, exported as finishCollectorRun.\<close>

definition finishCollectorRun ::
  "db \<Rightarrow> string \<Rightarrow> terminal_status \<Rightarrow> RunStats \<Rightarrow> string option \<Rightarrow> timestamp \<Rightarrow> unit result" where
  "finishCollectorRun d runId st stats errorSummary now =
     (Inr (), d\<lparr>runs := map (\<lambda>r. if run_id r = runId
         then r\<lparr>run_status := status_of st, finished_at := Some now, run_error := errorSummary,
               metrics := jsonb_set (jsonb_set (metrics r) ''stats'' (stats_json stats))
                            ''finished'' (JBool True)\<rparr>
         else r) (runs d)\<rparr>)"

section \<open>DedupResolver (collect/http-snapshot.ts)\<close>

record FetchResponse =
  resp_status :: int
  resp_headers :: "(string \<times> string) list"
  resp_body :: "nat list"

record HttpSnapshotResult =
  hs_itemId :: string
  hs_url :: string
  hs_canonicalUri :: string
  hs_isNew :: bool
  hs_supersededItemId :: "string option"

text \<open>
  What the collector takes from outside the store: the injected fetch function (a throw
  is an \<open>Inl\<close>), the URL normaliser and the content hash of normalize.ts (pure functions
  of their argument; the hash is taken on the response bytes), the platform's digest,
  and the two sources of nondeterminism: \<open>ulid n\<close> is the identifier drawn by the
  \<open>n\<close>-th statement and \<open>clock n\<close> the time at which it runs.
\<close>

record ctx =
  fetchFn :: "string \<Rightarrow> error + FetchResponse"
  normalizeUrl :: "string \<Rightarrow> string"
  computeContentSha256 :: "nat list \<Rightarrow> string"
  hexdigest :: "nat list \<Rightarrow> string"
  ulid :: "nat \<Rightarrow> string"
  clock :: "nat \<Rightarrow> timestamp"
  generateIdempotencyKey :: "string list \<Rightarrow> timestamp \<Rightarrow> string"

record world =
  store :: db
  seq :: nat

datatype match_kind = ContentSha256 | CanonicalUri

fun match_name :: "match_kind \<Rightarrow> string" where
  "match_name ContentSha256 = ''content_sha256''"
| "match_name CanonicalUri = ''canonical_uri''"

fun show_nat :: "nat \<Rightarrow> string" where
  "show_nat n = (if n < 10 then [char_of (48 + n)]
                 else show_nat (n div 10) @ [char_of (48 + n mod 10)])"

definition show_int :: "int \<Rightarrow> string" where
  "show_int i = (if i < 0 then ''-'' @ show_nat (nat (- i)) else show_nat (nat i))"

text \<open>
  \<open>error.message\<close>. For the errors raised by the database the driver's text is
  abbreviated to the SQLSTATE code and the constraint's name.
\<close>

fun error_message :: "error \<Rightarrow> string" where
  "error_message (UniqueViolation c) = ''23505 '' @ c"
| "error_message (ForeignKeyViolation c) = ''23503 '' @ c"
| "error_message (CheckViolation c) = ''23514 '' @ c"
| "error_message NumericValueOutOfRange = ''22003''"
| "error_message QueryResultError = ''Multiple rows were not expected.''"
| "error_message (IdempotencyConflict r) =
     ''Idempotency conflict: run '' @ r @ '' already exists with this idempotency key''"
| "error_message (HttpError st u) = ''HTTP '' @ show_int st @ '' for '' @ u"
| "error_message (FetchError m) = m"

text \<open>\<open>response.headers['content-type']?.split(';')[0] || 'text/html'\<close>\<close>

definition content_mime :: "(string \<times> string) list \<Rightarrow> string" where
  "content_mime headers =
     (case map_of headers ''content-type'' of
        None \<Rightarrow> ''text/html''
      | Some v \<Rightarrow> (let p = takeWhile (\<lambda>ch. ch \<noteq> CHR '';'') v
                   in if p = [] then ''text/html'' else p))"

text \<open>
  The most recent of a result set: the array is sorted by created_at, descending (the
  sort is stable), and its first element taken; null when it is empty.
\<close>

definition mostRecent :: "item list \<Rightarrow> item option" where
  "mostRecent existing =
     (case sort_key (\<lambda>i. - item_created_at i) existing of [] \<Rightarrow> None | m # _ \<Rightarrow> Some m)"

record Selection =
  existingItem :: "item option"
  conflictResolved :: bool
  selectedMatch :: "match_kind option"

text \<open>Conflict resolution: the content_sha256 match wins over the canonical_uri match.\<close>

definition resolveMatch :: "item option \<Rightarrow> item option \<Rightarrow> Selection" where
  "resolveMatch hashMatch uriMatch =
     (case (hashMatch, uriMatch) of
        (Some h, Some u) \<Rightarrow>
          (if item_id h \<noteq> item_id u
           then \<lparr>existingItem = Some h, conflictResolved = True,
                 selectedMatch = Some ContentSha256\<rparr>
           else \<lparr>existingItem = Some h, conflictResolved = False,
                 selectedMatch = Some ContentSha256\<rparr>)
      | (Some h, None) \<Rightarrow>
          \<lparr>existingItem = Some h, conflictResolved = False, selectedMatch = Some ContentSha256\<rparr>
      | (None, Some u) \<Rightarrow>
          \<lparr>existingItem = Some u, conflictResolved = False, selectedMatch = Some CanonicalUri\<rparr>
      | (None, None) \<Rightarrow>
          \<lparr>existingItem = None, conflictResolved = False, selectedMatch = None\<rparr>)"

definition json_opt :: "string option \<Rightarrow> json" where
  "json_opt x = (case x of None \<Rightarrow> JNull | Some v \<Rightarrow> JStr v)"

definition id_text :: "item option \<Rightarrow> string" where
  "id_text x = (case x of None \<Rightarrow> ''undefined'' | Some i \<Rightarrow> item_id i)"

definition edgeMeta ::
  "Selection \<Rightarrow> item \<Rightarrow> string \<Rightarrow> item option \<Rightarrow> item option \<Rightarrow> json" where
  "edgeMeta sel existing canonicalUri uriMatch hashMatch =
     JObj ([(''reason'', json_opt (map_option match_name (selectedMatch sel))),
            (''original_canonical_uri'', json_opt (canonical_uri existing)),
            (''new_canonical_uri'', JStr canonicalUri)] @
           (if conflictResolved sel
            then [(''conflict_resolved'', JBool True),
                  (''canonical_uri_match'', json_opt (map_option item_id uriMatch)),
                  (''content_sha256_match'', json_opt (map_option item_id hashMatch)),
                  (''selected'', json_opt (map_option match_name (selectedMatch sel)))]
            else []))"

text \<open>One statement of a composite operation: it draws the next identifier and time.\<close>

definition appendLog ::
  "ctx \<Rightarrow> world \<Rightarrow> string \<Rightarrow> log_level \<Rightarrow> string \<Rightarrow> json \<Rightarrow> (error + unit) \<times> world" where
  "appendLog c w runId lvl msg data =
     (case appendRunLog (store w) (ulid c (seq w)) (clock c (seq w)) runId lvl msg (Some data) of
        (r, d') \<Rightarrow> (r, \<lparr>store = d', seq = Suc (seq w)\<rparr>))"

text \<open>
  The second half of collectUrl, after the new item is stored: the run output, then
  either the supersedes edge and its log line, or the log line of a new item.
\<close>

definition linkItem ::
  "ctx \<Rightarrow> world \<Rightarrow> string \<Rightarrow> string \<Rightarrow> string \<Rightarrow> item \<Rightarrow> Selection \<Rightarrow> item option \<Rightarrow>
   item option \<Rightarrow> (error + HttpSnapshotResult) \<times> world" where
  "linkItem c w runId url canonicalUri it sel uriMatch hashMatch =
     (case addRunOutput (store w) runId (item_id it) of
        (Inl e, d1) \<Rightarrow> (Inl e, w\<lparr>store := d1\<rparr>)
      | (Inr _, d1) \<Rightarrow>
         (case existingItem sel of
            Some existing \<Rightarrow>
              (if item_id existing \<noteq> item_id it then
                 (case createEdge d1 (ulid c (seq w)) (clock c (seq w))
                         \<lparr>ce_from_item_id = item_id existing, ce_to_item_id = item_id it,
                          ce_rel = ''supersedes'',
                          ce_meta = Some (edgeMeta sel existing canonicalUri uriMatch hashMatch)\<rparr> of
                    (Inl e, d2) \<Rightarrow> (Inl e, \<lparr>store = d2, seq = Suc (seq w)\<rparr>)
                  | (Inr _, d2) \<Rightarrow>
                     (case appendLog c \<lparr>store = d2, seq = Suc (seq w)\<rparr> runId
                             (if conflictResolved sel then Warn else Info)
                             (if conflictResolved sel
                              then ''Conflict resolved: content_sha256 match ('' @ id_text hashMatch @
                                   '') takes precedence over canonical_uri match ('' @
                                   id_text uriMatch @ '')''
                              else ''Found existing item '' @ item_id existing @ '' with same '' @
                                   (case selectedMatch sel of None \<Rightarrow> ''null''
                                    | Some k \<Rightarrow> match_name k) @
                                   '', linked via supersedes edge'')
                             (JObj [(''existing_item_id'', JStr (item_id existing)),
                                    (''new_item_id'', JStr (item_id it)),
                                    (''conflict_resolved'', JBool (conflictResolved sel)),
                                    (''selected_match'',
                                       json_opt (map_option match_name (selectedMatch sel)))]) of
                        (Inl e, w3) \<Rightarrow> (Inl e, w3)
                      | (Inr _, w3) \<Rightarrow>
                          (Inr \<lparr>hs_itemId = item_id it, hs_url = url,
                                hs_canonicalUri = canonicalUri, hs_isNew = False,
                                hs_supersededItemId = Some (item_id existing)\<rparr>, w3)))
               else
                 (case appendLog c (w\<lparr>store := d1\<rparr>) runId Info
                         (''Created new item '' @ item_id it @ '' for '' @ url)
                         (JObj [(''item_id'', JStr (item_id it)),
                                (''canonical_uri'', JStr canonicalUri)]) of
                    (Inl e, w3) \<Rightarrow> (Inl e, w3)
                  | (Inr _, w3) \<Rightarrow>
                      (Inr \<lparr>hs_itemId = item_id it, hs_url = url,
                            hs_canonicalUri = canonicalUri, hs_isNew = True,
                            hs_supersededItemId = None\<rparr>, w3)))
          | None \<Rightarrow>
              (case appendLog c (w\<lparr>store := d1\<rparr>) runId Info
                      (''Created new item '' @ item_id it @ '' for '' @ url)
                      (JObj [(''item_id'', JStr (item_id it)),
                             (''canonical_uri'', JStr canonicalUri)]) of
                 (Inl e, w3) \<Rightarrow> (Inl e, w3)
               | (Inr _, w3) \<Rightarrow>
                   (Inr \<lparr>hs_itemId = item_id it, hs_url = url,
                         hs_canonicalUri = canonicalUri, hs_isNew = True,
                         hs_supersededItemId = None\<rparr>, w3))))"

text \<open>The two match queries of collectUrl and the most recent row of each.\<close>

definition uriMatchOf :: "db \<Rightarrow> string \<Rightarrow> item option" where
  "uriMatchOf d canonicalUri =
     mostRecent (if canonicalUri \<noteq> [] then findItemsByCanonicalUri d canonicalUri else [])"

definition hashMatchOf :: "db \<Rightarrow> string \<Rightarrow> item option" where
  "hashMatchOf d contentSha256 = mostRecent (findItemsByContentSha256 d contentSha256)"

definition collectUrl ::
  "ctx \<Rightarrow> world \<Rightarrow> string \<Rightarrow> string \<Rightarrow> timestamp \<Rightarrow> (error + HttpSnapshotResult) \<times> world" where
  "collectUrl c w runId url observedAt =
     (let canonicalUri = normalizeUrl c url in
      case fetchFn c url of
        Inl e \<Rightarrow> (Inl e, w)
      | Inr response \<Rightarrow>
          if resp_status response < 200 \<or> resp_status response \<ge> 300
          then (Inl (HttpError (resp_status response) url), w)
          else
            (case putBlob (hexdigest c) (store w) (clock c (seq w)) (resp_body response)
                    (Some (content_mime (resp_headers response))) of
               (Inl e, d1) \<Rightarrow> (Inl e, w\<lparr>store := d1\<rparr>)
             | (Inr blobResult, d1) \<Rightarrow>
                 (let contentSha256 = computeContentSha256 c (resp_body response);
                      uriMatch = uriMatchOf d1 canonicalUri;
                      hashMatch = hashMatchOf d1 contentSha256;
                      sel = resolveMatch hashMatch uriMatch
                  in case createItem d1 (ulid c (seq w)) (clock c (seq w))
                       \<lparr>ci_type = ''intel.webpage'', ci_title = None,
                        ci_source_type = ''collector'', ci_source_id = ''http_snapshot'',
                        ci_external_ref = Some url, ci_canonical_uri = Some canonicalUri,
                        ci_content_sha256 = Some contentSha256,
                        ci_observed_at = Some observedAt, ci_tags = None,
                        ci_sensitivity = None, ci_blob_id = Some (blobId blobResult),
                        ci_text_content = None,
                        ci_meta = Some (JObj
                          [(''fetch_status'', JNum (resp_status response)),
                           (''fetch_headers'',
                              JObj (map (\<lambda>(k, v). (k, JStr v)) (resp_headers response))),
                           (''blob_inserted'', JBool (inserted blobResult))])\<rparr> of
                       (Inl e, d2) \<Rightarrow> (Inl e, \<lparr>store = d2, seq = Suc (seq w)\<rparr>)
                     | (Inr it, d2) \<Rightarrow>
                         linkItem c \<lparr>store = d2, seq = Suc (seq w)\<rparr> runId url canonicalUri
                           it sel uriMatch hashMatch)))"

text \<open>
  The loop of collectHttpSnapshot: a URL that fails is logged at error level and the
  error is thrown again, which ends the loop.
\<close>

fun collectLoop ::
  "ctx \<Rightarrow> world \<Rightarrow> string \<Rightarrow> timestamp \<Rightarrow> string list \<Rightarrow> HttpSnapshotResult list \<Rightarrow>
   (error + HttpSnapshotResult list) \<times> world" where
  "collectLoop c w runId observedAt [] results = (Inr results, w)"
| "collectLoop c w runId observedAt (url # rest) results =
     (case collectUrl c w runId url observedAt of
        (Inr r, w1) \<Rightarrow> collectLoop c w1 runId observedAt rest (results @ [r])
      | (Inl e, w1) \<Rightarrow>
          (case appendLog c w1 runId Error (''Failed to collect '' @ url)
                  (JObj [(''error'', JStr (error_message e))]) of
             (Inl e', w2) \<Rightarrow> (Inl e', w2)
           | (Inr _, w2) \<Rightarrow> (Inl e, w2)))"

definition collectHttpSnapshot ::
  "ctx \<Rightarrow> world \<Rightarrow> string \<Rightarrow> string list \<Rightarrow> (error + HttpSnapshotResult list) \<times> world" where
  "collectHttpSnapshot c w runId urls =
     (let observedAt = clock c (seq w) in
      case appendLog c w runId Info ''Starting http_snapshot collector''
             (JObj [(''url_count'', JNum (int (length urls))),
                    (''urls'', JArr (map JStr urls))]) of
        (Inl e, w1) \<Rightarrow> (Inl e, w1)
      | (Inr _, w1) \<Rightarrow>
          (case collectLoop c w1 runId observedAt urls [] of
             (Inl e, w2) \<Rightarrow> (Inl e, w2)
           | (Inr results, w2) \<Rightarrow>
               (case appendLog c w2 runId Info ''Completed http_snapshot collector''
                       (JObj [(''success_count'', JNum (int (length results))),
                              (''new_items'', JNum (int (length (filter hs_isNew results)))),
                              (''superseded_items'',
                                 JNum (int (length (filter (\<lambda>r. \<not> hs_isNew r) results))))]) of
                  (Inl e, w3) \<Rightarrow> (Inl e, w3)
                | (Inr _, w3) \<Rightarrow> (Inr results, w3))))"

section \<open>The command-line collector (lake-cli/scripts/run-collector.ts)\<close>

definition NORMALIZATION_VERSION :: string where
  "NORMALIZATION_VERSION = ''http_snapshot_url_v1_text_v1''"

record CliArgs =
  configPath :: string
  dryRun :: bool
  since :: "timestamp option"
  concurrency :: int
  failFast :: bool

record CollectorConfig =
  cc_type :: string
  cc_name :: string
  cc_urls :: "string list"
  cc_headers :: "(string \<times> string) list option"
  cc_timeoutMs :: "int option"

datatype collector_status = CollSucceeded | CollFailed | CollSkipped

record CollectorResult =
  res_name :: string
  res_type :: string
  res_status :: collector_status
  res_urlsAttempted :: int
  res_urlsSucceeded :: int
  res_itemsCreated :: int
  res_bytesDownloaded :: int
  res_error :: "string option"

definition configSnapshotOf :: "CollectorConfig \<Rightarrow> json" where
  "configSnapshotOf collector =
     JObj ([(''type'', JStr (cc_type collector)), (''name'', JStr (cc_name collector)),
            (''urlCount'', JNum (int (length (cc_urls collector)))),
            (''urls'', JArr (map JStr (cc_urls collector)))] @
           (case cc_timeoutMs collector of None \<Rightarrow> [] | Some t \<Rightarrow> [(''timeoutMs'', JNum t)]) @
           (case cc_headers collector of None \<Rightarrow> []
            | Some h \<Rightarrow> [(''headers'', JArr (map (\<lambda>(k, v). JStr k) h))]))"

text \<open>appendCollectorRunLog as a statement of the script.\<close>

definition appendCollectorLog ::
  "ctx \<Rightarrow> world \<Rightarrow> string \<Rightarrow> log_level \<Rightarrow> string \<Rightarrow> json \<Rightarrow> (error + unit) \<times> world" where
  "appendCollectorLog c w runId lvl msg meta =
     (case appendCollectorRunLog (store w) (ulid c (seq w)) (clock c (seq w)) runId lvl msg
             (Some meta) of
        (r, d') \<Rightarrow> (r, \<lparr>store = d', seq = Suc (seq w)\<rparr>))"

text \<open>
  The loop over the snapshot results: each one is counted, then logged; a log statement
  that throws ends the loop with the counters as they are.
\<close>

fun logResults ::
  "ctx \<Rightarrow> world \<Rightarrow> string \<Rightarrow> HttpSnapshotResult list \<Rightarrow> CollectorResult \<Rightarrow>
   error option \<times> CollectorResult \<times> world" where
  "logResults c w runId [] res = (None, res, w)"
| "logResults c w runId (snapResult # rest) res =
     (let res1 = res\<lparr>res_urlsSucceeded := res_urlsSucceeded res + 1\<rparr>;
          res2 = (if hs_isNew snapResult
                  then res1\<lparr>res_itemsCreated := res_itemsCreated res1 + 1\<rparr> else res1)
      in case appendCollectorLog c w runId Info (''Collected '' @ hs_url snapResult)
                (JObj ([(''url'', JStr (hs_url snapResult)),
                        (''canonical_uri'', JStr (hs_canonicalUri snapResult)),
                        (''http_status'', JNum 200),
                        (''item_id'', JStr (hs_itemId snapResult)),
                        (''is_new'', JBool (hs_isNew snapResult))] @
                       (case hs_supersededItemId snapResult of None \<Rightarrow> []
                        | Some s \<Rightarrow> [(''superseded_item_id'', JStr s)]))) of
           (Inl e, w1) \<Rightarrow> (Some e, res2, w1)
         | (Inr _, w1) \<Rightarrow> logResults c w1 runId rest res2)"

text \<open>
  The try block that runs the collector: collectHttpSnapshot over all the URLs of the
  configuration, then the loop over its results. The result is the error caught, if
  any, with the counters and the store as the block left them.
\<close>

definition runSnapshot ::
  "ctx \<Rightarrow> world \<Rightarrow> string \<Rightarrow> string list \<Rightarrow> CollectorResult \<Rightarrow>
   error option \<times> CollectorResult \<times> world" where
  "runSnapshot c w runId urls res =
     (case collectHttpSnapshot c w runId urls of
        (Inl e, w1) \<Rightarrow> (Some e, res, w1)
      | (Inr snapshotResults, w1) \<Rightarrow>
          (case logResults c w1 runId snapshotResults res of
             (Some e, res1, w2) \<Rightarrow> (Some e, res1, w2)
           | (None, res1, w2) \<Rightarrow>
               (None, res1\<lparr>res_bytesDownloaded := res_urlsSucceeded res1 * 1024\<rparr>, w2)))"

text \<open>
  runCollector, from the run's start to its finish. The callback handed to
  withConcurrency only counts the URLs of a dry run; outside a dry run its try block is
  empty, so it neither fetches nor fails. An error caught around the collector sets
  hasErrors, is logged, and makes the status 'failed'.
\<close>

definition finishCollector ::
  "ctx \<Rightarrow> world \<Rightarrow> string \<Rightarrow> CollectorResult \<Rightarrow> (error + CollectorResult) \<times> world" where
  "finishCollector c w runId res =
     (case finishCollectorRun (store w) runId
             (if res_status res = CollSucceeded then FinSucceeded else FinFailed)
             \<lparr>urlsAttempted = res_urlsAttempted res, urlsSucceeded = res_urlsSucceeded res,
              itemsCreated = res_itemsCreated res, bytesDownloaded = res_bytesDownloaded res\<rparr>
             (res_error res) (clock c (seq w)) of
        (Inl e, d1) \<Rightarrow> (Inl e, w\<lparr>store := d1\<rparr>)
      | (Inr _, d1) \<Rightarrow> (Inr res, w\<lparr>store := d1\<rparr>))"

definition runCollector ::
  "ctx \<Rightarrow> world \<Rightarrow> CollectorConfig \<Rightarrow> CliArgs \<Rightarrow> (error + CollectorResult) \<times> world" where
  "runCollector c w collector args =
     (let res0 = \<lparr>res_name = cc_name collector, res_type = cc_type collector,
                  res_status = CollSucceeded, res_urlsAttempted = 0, res_urlsSucceeded = 0,
                  res_itemsCreated = 0, res_bytesDownloaded = 0, res_error = None\<rparr>;
          key = generateIdempotencyKey c (cc_urls collector) (clock c (seq w))
      in if dryRun args then
           (if cc_type collector = ''http_snapshot''
            then (Inr (res0\<lparr>res_urlsAttempted := int (length (cc_urls collector)),
                            res_urlsSucceeded := int (length (cc_urls collector))\<rparr>), w)
            else (Inr res0, w))
         else
           (case startRun (store w) (ulid c (seq w)) (clock c (seq w))
                   \<lparr>collectorType = cc_type collector, collectorName = cc_name collector,
                    normalizationVersion = NORMALIZATION_VERSION, idempotencyKey = key,
                    configSnapshot = configSnapshotOf collector\<rparr> of
              (Inl (IdempotencyConflict existing), d1) \<Rightarrow>
                (Inr (res0\<lparr>res_status := CollSkipped\<rparr>), \<lparr>store = d1, seq = Suc (seq w)\<rparr>)
            | (Inl e, d1) \<Rightarrow> (Inl e, \<lparr>store = d1, seq = Suc (seq w)\<rparr>)
            | (Inr started, d1) \<Rightarrow>
                (let w1 = \<lparr>store = d1, seq = Suc (seq w)\<rparr>; runId = sr_runId started in
                 if cc_type collector \<noteq> ''http_snapshot'' then (Inr res0, w1)
                 else
                   (let res1 = res0\<lparr>res_urlsAttempted := int (length (cc_urls collector))\<rparr> in
                    if runId = [] then (Inr res1, w1)
                    else
                      (case runSnapshot c w1 runId (cc_urls collector) res1 of
                         (None, res2, w2) \<Rightarrow> finishCollector c w2 runId res2
                       | (Some e, res2, w2) \<Rightarrow>
                           (case appendCollectorLog c w2 runId Error ''Collector execution failed''
                                   (JObj [(''error'', JStr (error_message e))]) of
                              (Inl e', w3) \<Rightarrow> (Inl e', w3)
                            | (Inr _, w3) \<Rightarrow>
                                finishCollector c w3 runId
                                  (res2\<lparr>res_status := CollFailed,
                                         res_error := Some (error_message e)\<rparr>)))))))"

section \<open>Sequences of queue operations\<close>

datatype queue_op =
    Enqueue string timestamp EnqueueTaskInput
  | LeaseNext string int timestamp
  | MarkRunning string timestamp
  | MarkSucceeded string timestamp
  | MarkFailed string string timestamp

fun apply_op :: "db \<Rightarrow> queue_op \<Rightarrow> db" where
  "apply_op d (Enqueue taskId now inp) = snd (enqueueTask d taskId now inp)"
| "apply_op d (LeaseNext workerId leaseMs now) = snd (leaseNextTask d workerId leaseMs now)"
| "apply_op d (MarkRunning taskId now) = snd (markTaskRunning d taskId now)"
| "apply_op d (MarkSucceeded taskId now) = snd (markTaskSucceeded d taskId now)"
| "apply_op d (MarkFailed taskId err now) = snd (markTaskFailed d taskId err now)"

fun run_ops :: "db \<Rightarrow> queue_op list \<Rightarrow> db" where
  "run_ops d [] = d"
| "run_ops d (x # xs) = run_ops (apply_op d x) xs"

text \<open>The task with this id is dead.\<close>

definition is_dead :: "db \<Rightarrow> string \<Rightarrow> bool" where
  "is_dead d taskId =
     (case getTask d taskId of None \<Rightarrow> False | Some t \<Rightarrow> task_status t = Dead)"

text \<open>The operation reports no outcome (running, succeeded, failed) for a dead task.\<close>

fun spares_dead :: "db \<Rightarrow> queue_op \<Rightarrow> bool" where
  "spares_dead d (MarkRunning taskId now) = (\<not> is_dead d taskId)"
| "spares_dead d (MarkSucceeded taskId now) = (\<not> is_dead d taskId)"
| "spares_dead d (MarkFailed taskId err now) = (\<not> is_dead d taskId)"
| "spares_dead d _ = True"

fun dead_left_alone :: "db \<Rightarrow> queue_op list \<Rightarrow> bool" where
  "dead_left_alone d [] = True"
| "dead_left_alone d (x # xs) = (spares_dead d x \<and> dead_left_alone (apply_op d x) xs)"

text \<open>
  The invariant of the tasks table: the primary key, the INT columns in range, and for
  a task with at least one attempt allowed, no more attempts than allowed, and fewer
  unless it is dead.
\<close>

definition task_ok :: "task \<Rightarrow> bool" where
  "task_ok t \<longleftrightarrow>
     int4 (attempts t) \<and> int4 (max_attempts t) \<and>
     (1 \<le> max_attempts t \<longrightarrow>
        attempts t \<le> max_attempts t \<and>
        (task_status t \<noteq> Dead \<longrightarrow> attempts t < max_attempts t))"

definition queue_inv :: "db \<Rightarrow> bool" where
  "queue_inv d \<longleftrightarrow> distinct (map task_id (tasks d)) \<and> (\<forall>t \<in> set (tasks d). task_ok t)"

text \<open>The unique indexes of the runs table.\<close>

definition runs_unique :: "db \<Rightarrow> bool" where
  "runs_unique d \<longleftrightarrow>
     distinct (map run_id (runs d)) \<and>
     distinct (filter (\<lambda>k. k \<noteq> None) (map idempotency_key (runs d)))"

section \<open>Concrete stores and inputs\<close>

definition job :: "int \<Rightarrow> EnqueueTaskInput" where
  "job m = \<lparr>in_type = ''derive.clean'', in_payload = JNull, in_dueAt = None,
            in_priority = None, in_runId = None, in_maxAttempts = Some m\<rparr>"

definition queue0 :: db where
  "queue0 = empty_db\<lparr>tasks :=
     [\<lparr>task_id = ''T0'', task_run_id = None, task_type = ''derive.clean'', payload = JNull,
       task_status = Dead, priority = 0, due_at = 0, attempts = 1, max_attempts = 1,
       locked_until = None, locked_by = None, last_error = Some ''e0'',
       task_created_at = 0, task_updated_at = 1\<rparr>,
      \<lparr>task_id = ''T1'', task_run_id = None, task_type = ''derive.clean'', payload = JNull,
       task_status = Leased, priority = 0, due_at = 0, attempts = 0, max_attempts = 3,
       locked_until = Some 1002, locked_by = Some ''w'', last_error = None,
       task_created_at = 0, task_updated_at = 2\<rparr>]\<rparr>"

definition ops0 :: "queue_op list" where
  "ops0 = [MarkFailed ''T1'' ''e1'' 3, MarkFailed ''T1'' ''e2'' 5,
           LeaseNext ''w'' 1000 6, MarkFailed ''T1'' ''e3'' 7, Enqueue ''T2'' 8 (job 2)]"

definition run1 :: run where
  "run1 = \<lparr>run_id = ''R1'', parent_run_id = None, kind = Cli, actor = None,
     tool_name = Some ''docs_seed'', tool_version = Some ''1.0.0'',
     idempotency_key = Some ''http_snapshot:2026-01-30:12:ab'',
     normalization_version = ''http_snapshot_url_v1_text_v1'',
     collector_version = Some ''http_snapshot'', run_status = Succeeded, started_at = 1,
     finished_at = Some 5, run_error = None,
     metrics = [(''configSnapshot'', JObj []), (''stats'', JObj []), (''finished'', JBool True)]\<rparr>"

definition ledger1 :: db where
  "ledger1 = empty_db\<lparr>runs := [run1]\<rparr>"

definition create_input :: "string option \<Rightarrow> CreateRunInput" where
  "create_input k = \<lparr>cr_kind = Cli, cr_actor = None, cr_toolName = Some ''test.collector'',
     cr_toolVersion = None, cr_idempotencyKey = k, cr_parentRunId = None,
     cr_normalizationVersion = None, cr_collectorVersion = None\<rparr>"

definition start_input :: "string \<Rightarrow> StartRunInput" where
  "start_input k = \<lparr>collectorType = ''http_snapshot'', collectorName = ''docs_seed'',
     normalizationVersion = ''http_snapshot_url_v1_text_v1'', idempotencyKey = k,
     configSnapshot = JObj []\<rparr>"

definition note_input :: "string option \<Rightarrow> string option \<Rightarrow> CreateItemInput" where
  "note_input b t = \<lparr>ci_type = ''note'', ci_title = None, ci_source_type = ''manual'',
     ci_source_id = ''user:steve'', ci_external_ref = None, ci_canonical_uri = None,
     ci_content_sha256 = None, ci_observed_at = None, ci_tags = None, ci_sensitivity = None,
     ci_blob_id = b, ci_text_content = t, ci_meta = None\<rparr>"

definition blobs1 :: db where
  "blobs1 = empty_db\<lparr>blobs := [\<lparr>blob_id = ''sha256:2cf2'', size_bytes = 2,
     mime_type = None, blob_created_at = 0\<rparr>]\<rparr>"

text \<open>
  The SHA-256 digests, in hex, of the texts \<open>hi\<close> (bytes 104, 105) and \<open>yo\<close> (bytes
  121, 111).
\<close>

definition digest_hi :: string where
  "digest_hi = ''8f434346648f6b96df89dda901c5176b10a6d83961dd3c1ac88b59b2dc327aa4''"

definition digest_yo :: string where
  "digest_yo = ''e9058ab198f6908f702111b0c0fb5b36f99d00554521886c40e2891b349dc7a1''"

definition digest0 :: "nat list \<Rightarrow> string" where
  "digest0 b = (if b = [104, 105] then digest_hi else if b = [121, 111] then digest_yo else [])"

text \<open>
  A collector environment, given on the inputs used below. bad.example answers 404,
  b.example answers 200 with the text \<open>yo\<close>, every other URL 200 with the text \<open>hi\<close>. The
  URLs are lower-case, with the path \<open>/\<close> and no port, query or fragment, for which
  normalizeUrl only drops the final slash. The texts have no markup, upper case or
  white space, so that the content hash is the digest of the bytes. The idempotency key
  is the one of the three URLs of \<open>three_urls\<close> in the first hour of the epoch.
\<close>

definition ctx0 :: ctx where
  "ctx0 = \<lparr>
     fetchFn = (\<lambda>u. if u = ''https://bad.example/''
        then Inr \<lparr>resp_status = 404, resp_headers = [(''content-type'', ''text/plain'')],
                  resp_body = [110, 111]\<rparr>
        else Inr \<lparr>resp_status = 200,
                  resp_headers = [(''content-type'', ''text/html; charset=utf-8'')],
                  resp_body = (if u = ''https://b.example/'' then [121, 111] else [104, 105])\<rparr>),
     normalizeUrl = (\<lambda>u. if u \<noteq> [] \<and> last u = CHR ''/'' then butlast u else u),
     computeContentSha256 = (\<lambda>b. ''sha256:'' @ digest0 b),
     hexdigest = digest0,
     ulid = (\<lambda>n. ''ID'' @ show_nat n),
     clock = (\<lambda>n. 100 + int n),
     generateIdempotencyKey = (\<lambda>urls t. ''http_snapshot:1970-01-01:0:0bcf5ab6f2efd2e2'')\<rparr>"

text \<open>A stored web page: \<open>uri\<close> is the canonical URI, the page was fetched from \<open>uri/\<close>.\<close>

definition page :: "string \<Rightarrow> string \<Rightarrow> string \<Rightarrow> timestamp \<Rightarrow> item" where
  "page i uri sha t = \<lparr>item_id = i, item_type = ''intel.webpage'', title = None,
     source_type = ''collector'', source_id = ''http_snapshot'',
     external_ref = Some (uri @ ''/''), canonical_uri = Some uri,
     content_sha256 = Some (''sha256:'' @ sha), observed_at = Some t, tags = [],
     item_sensitivity = Private, item_blob_id = Some ''sha256:b0'', text_content = None,
     item_meta = JObj [], item_created_at = t, item_updated_at = t\<rparr>"

definition run_of :: "string \<Rightarrow> string \<Rightarrow> run_status \<Rightarrow> run" where
  "run_of i v st = \<lparr>run_id = i, parent_run_id = None, kind = Cli, actor = None,
     tool_name = Some ''docs_seed'', tool_version = Some ''1.0.0'', idempotency_key = None,
     normalization_version = v, collector_version = Some ''http_snapshot'', run_status = st,
     started_at = 1, finished_at = None, run_error = None, metrics = []\<rparr>"

text \<open>
  The conflict scenario: item A has the digest of \<open>hi\<close> and the URI of a.example, item B
  the digest of \<open>yo\<close> and the URI of d.example; run R observes d.example, whose content
  is \<open>hi\<close>.
\<close>

definition lake1 :: world where
  "lake1 = \<lparr>store = empty_db\<lparr>
       blobs := [\<lparr>blob_id = ''sha256:b0'', size_bytes = 1, mime_type = None,
                  blob_created_at = 5\<rparr>],
       items := [page ''A'' ''https://a.example'' digest_hi 10,
                 page ''B'' ''https://d.example'' digest_yo 20],
       runs := [run_of ''R'' ''http_snapshot_url_v1_text_v1'' Running]\<rparr>,
     seq = 0\<rparr>"

text \<open>
  Two runs with different normalization versions, in a store with no items yet.
\<close>

definition lake2 :: world where
  "lake2 = \<lparr>store = empty_db\<lparr>
       runs := [run_of ''R1'' ''http_snapshot_url_v1_text_v1'' Running,
                run_of ''R2'' ''http_snapshot_url_v2_text_v1'' Running]\<rparr>,
     seq = 0\<rparr>"

definition three_urls :: CollectorConfig where
  "three_urls = \<lparr>cc_type = ''http_snapshot'', cc_name = ''docs_seed'',
     cc_urls = [''https://a.example/'', ''https://bad.example/'', ''https://b.example/''],
     cc_headers = None, cc_timeoutMs = None\<rparr>"

definition default_args :: CliArgs where
  "default_args = \<lparr>configPath = ''lake.config.json'', dryRun = False, since = None,
     concurrency = 4, failFast = False\<rparr>"

section \<open>Properties of the task queue\<close>

lemma find_id_map_same:
  "(\<And>t. task_id (f t) = task_id t) \<Longrightarrow>
   find (\<lambda>t. task_id t = k) (map (\<lambda>t. if task_id t = k then f t else t) ts)
     = map_option f (find (\<lambda>t. task_id t = k) ts)"
  by (induction ts) auto

lemma find_id_map_other:
  "(\<And>t. task_id (f t) = task_id t) \<Longrightarrow> k' \<noteq> k \<Longrightarrow>
   find (\<lambda>t. task_id t = k) (map (\<lambda>t. if task_id t = k' then f t else t) ts)
     = find (\<lambda>t. task_id t = k) ts"
  by (induction ts) auto

lemma find_id_unique:
  "distinct (map task_id ts) \<Longrightarrow> t \<in> set ts \<Longrightarrow> find (\<lambda>u. task_id u = task_id t) ts = Some t"
  by (induction ts) (auto simp: image_iff)

lemma find_id_mem:
  "find (\<lambda>u. task_id u = k) ts = Some t \<Longrightarrow> t \<in> set ts \<and> task_id t = k"
  by (induction ts) (auto split: if_splits)

lemma find_app:
  "find P (xs @ ys) = (case find P xs of None \<Rightarrow> find P ys | Some x \<Rightarrow> Some x)"
  by (induction xs) auto

lemma map_ids_unchanged:
  "(\<And>t. task_id (f t) = task_id t) \<Longrightarrow>
   map (task_id \<circ> (\<lambda>t. if task_id t = k then f t else t)) ts = map task_id ts"
  by (induction ts) auto

lemma lease_next_head:
  assumes "lease_next now ts = n # rest"
  shows "n \<in> set ts \<and> lease_eligible now n"
proof -
  have "n \<in> set (lease_next now ts)" using assms by simp
  then have "n \<in> set (sort_key (\<lambda>t. (- priority t, due_at t)) (filter (lease_eligible now) ts))"
    unfolding lease_next_def by (rule in_set_takeD)
  then show ?thesis by simp
qed

lemma lease_row_id [simp]: "task_id (lease_row w ms now t) = task_id t"
  by (simp add: lease_row_def)

lemma fail_row_id [simp]: "task_id (fail_row e now t) = task_id t"
  by (simp add: fail_row_def)

lemma queue_inv_empty: "queue_inv empty_db"
  by (simp add: queue_inv_def empty_db_def)

lemma same_id_same_row:
  "queue_inv d \<Longrightarrow> t \<in> set (tasks d) \<Longrightarrow> u \<in> set (tasks d) \<Longrightarrow> task_id t = task_id u \<Longrightarrow> t = u"
  by (auto simp: queue_inv_def distinct_map dest: inj_onD)

lemma spared_row:
  assumes "queue_inv d" "\<not> is_dead d k" "t \<in> set (tasks d)" "task_id t = k"
  shows "task_status t \<noteq> Dead"
proof -
  have "getTask d k = Some t"
    using assms find_id_unique[of "tasks d" t] by (simp add: getTask_def queue_inv_def)
  then show ?thesis using assms(2) by (simp add: is_dead_def)
qed

lemma inv_enqueue: "queue_inv d \<Longrightarrow> queue_inv (snd (enqueueTask d k now inp))"
  by (auto simp: enqueueTask_def queue_inv_def task_ok_def Let_def int4_def
           split: option.splits)

lemma inv_lease:
  assumes "queue_inv d" shows "queue_inv (snd (leaseNextTask d w ms now))"
proof (cases "lease_next now (tasks d)")
  case Nil
  then show ?thesis using assms by (simp add: leaseNextTask_def)
next
  case (Cons n rest)
  then have n: "n \<in> set (tasks d)" "task_status n = Queued"
    using lease_next_head[of now "tasks d" n rest] by (auto simp: lease_eligible_def)
  have same: "t = n" if "t \<in> set (tasks d)" "task_id t = task_id n" for t
    using same_id_same_row[OF assms that(1) n(1) that(2)] .
  have ok: "task_ok (lease_row w ms now n)"
    using assms n by (auto simp: queue_inv_def task_ok_def lease_row_def)
  show ?thesis
    using assms Cons same ok
    by (auto simp: leaseNextTask_def queue_inv_def map_ids_unchanged)
qed

lemma inv_running:
  assumes "queue_inv d" "\<not> is_dead d k" shows "queue_inv (snd (markTaskRunning d k now))"
proof -
  have "task_ok (t\<lparr>task_status := TaskRunning, task_updated_at := now\<rparr>)"
    if "t \<in> set (tasks d)" "task_id t = k" for t
    using spared_row[OF assms that] assms(1) that(1)
    by (auto simp: queue_inv_def task_ok_def)
  then show ?thesis
    using assms(1) by (auto simp: markTaskRunning_def queue_inv_def map_ids_unchanged)
qed

lemma inv_succeeded:
  assumes "queue_inv d" "\<not> is_dead d k" shows "queue_inv (snd (markTaskSucceeded d k now))"
proof -
  have "task_ok (t\<lparr>task_status := TaskSucceeded, task_updated_at := now\<rparr>)"
    if "t \<in> set (tasks d)" "task_id t = k" for t
    using spared_row[OF assms that] assms(1) that(1)
    by (auto simp: queue_inv_def task_ok_def)
  then show ?thesis
    using assms(1) by (auto simp: markTaskSucceeded_def queue_inv_def map_ids_unchanged)
qed

lemma inv_failed:
  assumes "queue_inv d" "\<not> is_dead d k" shows "queue_inv (snd (markTaskFailed d k e now))"
proof (cases "\<exists>t \<in> set (tasks d). task_id t = k \<and> \<not> int4 (attempts t + 1)")
  case True
  then show ?thesis using assms(1) by (simp add: markTaskFailed_def)
next
  case False
  have "task_ok (fail_row e now t)" if "t \<in> set (tasks d)" "task_id t = k" for t
  proof -
    have "task_status t \<noteq> Dead" using spared_row[OF assms that] .
    moreover have "task_ok t" using assms(1) that(1) by (simp add: queue_inv_def)
    moreover have "int4 (attempts t + 1)" using False that by blast
    ultimately show ?thesis by (auto simp: task_ok_def fail_row_def)
  qed
  then show ?thesis
    using assms(1) False
    by (auto simp: markTaskFailed_def queue_inv_def map_ids_unchanged)
qed

lemma inv_step: "queue_inv d \<Longrightarrow> spares_dead d x \<Longrightarrow> queue_inv (apply_op d x)"
  by (cases x) (simp_all add: inv_enqueue inv_lease inv_running inv_succeeded inv_failed)

lemma inv_run: "queue_inv d \<Longrightarrow> dead_left_alone d xs \<Longrightarrow> queue_inv (run_ops d xs)"
  by (induction xs arbitrary: d) (simp_all add: inv_step)

lemma dead_enqueue:
  "getTask d k = Some t \<Longrightarrow> getTask (snd (enqueueTask d k' now inp)) k = Some t"
  by (auto simp: enqueueTask_def getTask_def Let_def find_app split: option.splits)

lemma dead_lease:
  assumes "queue_inv d" "getTask d k = Some t" "task_status t = Dead"
  shows "getTask (snd (leaseNextTask d w ms now)) k = Some t"
proof (cases "lease_next now (tasks d)")
  case Nil
  then show ?thesis using assms by (simp add: leaseNextTask_def)
next
  case (Cons n rest)
  then have n: "n \<in> set (tasks d)" "task_status n = Queued"
    using lease_next_head[of now "tasks d" n rest] by (auto simp: lease_eligible_def)
  have t: "t \<in> set (tasks d)" "task_id t = k"
    using assms(2) find_id_mem[of k "tasks d" t] by (simp_all add: getTask_def)
  have "task_id n \<noteq> k"
  proof
    assume "task_id n = k"
    then have "n = t" using same_id_same_row[OF assms(1) n(1) t(1)] t(2) by simp
    then show False using n(2) assms(3) by simp
  qed
  then show ?thesis
    using assms(2) Cons by (simp add: leaseNextTask_def getTask_def find_id_map_other)
qed

lemma spared_not_dead:
  "\<not> is_dead d k' \<Longrightarrow> getTask d k = Some t \<Longrightarrow> task_status t = Dead \<Longrightarrow> k' \<noteq> k"
  by (auto simp: is_dead_def)

lemma dead_step:
  assumes "queue_inv d" "spares_dead d x" "getTask d k = Some t" "task_status t = Dead"
  shows "getTask (apply_op d x) k = Some t"
proof (cases x)
  case (Enqueue k' now inp)
  then show ?thesis using assms(3) by (simp add: dead_enqueue)
next
  case (LeaseNext w ms now)
  then show ?thesis using assms by (simp add: dead_lease)
next
  case (MarkRunning k' now)
  then have "k' \<noteq> k" using assms spared_not_dead by auto
  then show ?thesis using MarkRunning assms(3)
    by (simp add: markTaskRunning_def getTask_def find_id_map_other)
next
  case (MarkSucceeded k' now)
  then have "k' \<noteq> k" using assms spared_not_dead by auto
  then show ?thesis using MarkSucceeded assms(3)
    by (simp add: markTaskSucceeded_def getTask_def find_id_map_other)
next
  case (MarkFailed k' e now)
  then have "k' \<noteq> k" using assms spared_not_dead by auto
  then show ?thesis using MarkFailed assms(3)
    by (simp add: markTaskFailed_def getTask_def find_id_map_other)
qed

lemma dead_run:
  "queue_inv d \<Longrightarrow> dead_left_alone d xs \<Longrightarrow> getTask d k = Some t \<Longrightarrow> task_status t = Dead
   \<Longrightarrow> getTask (run_ops d xs) k = Some t"
  by (induction xs arbitrary: d) (simp_all add: inv_step dead_step)

text \<open>markTaskFailed on any task the store holds, whatever its status.\<close>

lemma failed_any:
  assumes "queue_inv d" "getTask d k = Some t" "attempts t < 2147483647"
  shows "fst (markTaskFailed d k e now) = Inr () \<and>
         getTask (snd (markTaskFailed d k e now)) k = Some (fail_row e now t)"
proof -
  have t: "t \<in> set (tasks d)" "task_id t = k"
    using assms(2) find_id_mem[of k "tasks d" t] by (simp_all add: getTask_def)
  have only: "u = t" if "u \<in> set (tasks d)" "task_id u = k" for u
    using same_id_same_row[OF assms(1) that(1) t(1)] that(2) t(2) by simp
  have "task_ok t" using assms(1) t(1) by (simp add: queue_inv_def)
  then have "int4 (attempts t + 1)"
    using assms(3) by (auto simp: task_ok_def int4_def)
  then have "\<not> (\<exists>u \<in> set (tasks d). task_id u = k \<and> \<not> int4 (attempts u + 1))"
    using only by blast
  then show ?thesis
    using assms(2) by (simp add: markTaskFailed_def getTask_def find_id_map_same)
qed

text \<open>Whatever leaseNextTask hands out was 'queued' in the store it was called on.\<close>

lemma leased_was_queued:
  assumes "leaseNextTask d w ms now = (Inr (Some t), d')"
  shows "\<exists>n \<in> set (tasks d). task_id n = task_id t \<and> task_status n = Queued"
proof (cases "lease_next now (tasks d)")
  case Nil
  then show ?thesis using assms by (simp add: leaseNextTask_def split: if_splits)
next
  case (Cons n rest)
  then have "n \<in> set (tasks d)" "task_status n = Queued"
    using lease_next_head[of now "tasks d" n rest] by (auto simp: lease_eligible_def)
  moreover have "t = lease_row w ms now n"
    using assms Cons by (simp add: leaseNextTask_def split: if_splits)
  ultimately show ?thesis by auto
qed

text \<open>
  C3. A task whose lease has expired and which is due is leased again by the next
  leaseNext. The code does not do so: the lease query asks for \<open>status = 'queued'\<close>, and a
  leased task keeps the status 'leased' when its lease runs out. Here the only task was
  leased by worker \<open>w1\<close> until time 5 and is due since time 0; at time 10 leaseNextTask for
  worker \<open>w2\<close> returns nothing and leaves the task with \<open>w1\<close>.
\<close>

theorem leaseNextTask_skips_expired_lease:
  "leaseNextTask
     (empty_db\<lparr>tasks :=
        [\<lparr>task_id = ''T1'', task_run_id = None, task_type = ''derive.clean'', payload = JNull,
          task_status = Leased, priority = 0, due_at = 0, attempts = 0, max_attempts = 10,
          locked_until = Some 5, locked_by = Some ''w1'', last_error = None,
          task_created_at = 0, task_updated_at = 1\<rparr>]\<rparr>)
     ''w2'' 60000 10
   = (Inr None,
      empty_db\<lparr>tasks :=
        [\<lparr>task_id = ''T1'', task_run_id = None, task_type = ''derive.clean'', payload = JNull,
          task_status = Leased, priority = 0, due_at = 0, attempts = 0, max_attempts = 10,
          locked_until = Some 5, locked_by = Some ''w1'', last_error = None,
          task_created_at = 0, task_updated_at = 1\<rparr>]\<rparr>)"
  by (simp add: leaseNextTask_def lease_next_def lease_eligible_def int4_def empty_db_def)

text \<open>
  C9, as stated, fails on the code, in these ways only. With \<open>maxAttempts = 0\<close> the first
  failure already leaves \<open>attempts = 1\<close>. An outcome reported for a dead task is applied
  like any other: markTaskFailed increments \<open>attempts\<close> past \<open>maxAttempts\<close>,
  markTaskSucceeded makes the task 'succeeded', markTaskRunning makes it 'running'.
\<close>

theorem dead_task_not_final_counterexample:
  "map (\<lambda>t. (task_status t, attempts t, max_attempts t))
     (tasks (run_ops empty_db
        [Enqueue ''T1'' 0 (job 0), LeaseNext ''w'' 1000 1, MarkFailed ''T1'' ''e1'' 2]))
     = [(Dead, 1, 0)] \<and>
   map (\<lambda>t. (task_status t, attempts t, max_attempts t))
     (tasks (run_ops empty_db
        [Enqueue ''T1'' 0 (job 1), LeaseNext ''w'' 1000 1, MarkFailed ''T1'' ''e1'' 2,
         MarkFailed ''T1'' ''e2'' 3]))
     = [(Dead, 2, 1)] \<and>
   map (\<lambda>t. (task_status t, attempts t, max_attempts t))
     (tasks (run_ops empty_db
        [Enqueue ''T1'' 0 (job 1), LeaseNext ''w'' 1000 1, MarkFailed ''T1'' ''e1'' 2,
         MarkSucceeded ''T1'' 3]))
     = [(TaskSucceeded, 1, 1)] \<and>
   map (\<lambda>t. (task_status t, attempts t, max_attempts t))
     (tasks (run_ops empty_db
        [Enqueue ''T1'' 0 (job 1), LeaseNext ''w'' 1000 1, MarkFailed ''T1'' ''e1'' 2,
         MarkRunning ''T1'' 3]))
     = [(TaskRunning, 1, 1)]"
  by code_simp

text \<open>
  C9, amended. In a store that satisfies the table's invariant (the empty store does),
  markTaskFailed on any task that is not dead and has \<open>maxAttempts \<ge> 1\<close>, whether queued,
  leased or running, succeeds, increments \<open>attempts\<close> by one, records the error, clears
  the lock fields, and makes the task 'dead' when the new count reaches \<open>maxAttempts\<close>
  and 'queued' otherwise. For every sequence of queue operations that reports no
  outcome (running, succeeded, failed) for a dead task, the invariant holds afterwards,
  so a task with \<open>maxAttempts \<ge> 1\<close> never has more attempts than \<open>maxAttempts\<close>, and a task
  that is dead stays as it is.
\<close>

theorem attempts_bounded_dead_final:
  assumes "queue_inv d" and "dead_left_alone d ops"
  shows "queue_inv (run_ops d ops) \<and>
         (\<forall>t \<in> set (tasks (run_ops d ops)).
            1 \<le> max_attempts t \<longrightarrow> attempts t \<le> max_attempts t) \<and>
         (\<forall>k t. getTask d k = Some t \<and> task_status t = Dead \<longrightarrow>
            getTask (run_ops d ops) k = Some t) \<and>
         (\<forall>k t e now. getTask d k = Some t \<and> task_status t \<noteq> Dead \<and> 1 \<le> max_attempts t \<longrightarrow>
            fst (markTaskFailed d k e now) = Inr () \<and>
            getTask (snd (markTaskFailed d k e now)) k =
              Some (t\<lparr>task_status := (if attempts t + 1 \<ge> max_attempts t then Dead else Queued),
                      attempts := attempts t + 1, last_error := Some e,
                      locked_until := None, locked_by := None, task_updated_at := now\<rparr>))"
proof -
  have inv: "queue_inv (run_ops d ops)"
    using assms by (rule inv_run)
  then have bound: "\<forall>t \<in> set (tasks (run_ops d ops)).
      1 \<le> max_attempts t \<longrightarrow> attempts t \<le> max_attempts t"
    by (simp add: queue_inv_def task_ok_def)
  have dead: "\<forall>k t. getTask d k = Some t \<and> task_status t = Dead \<longrightarrow>
      getTask (run_ops d ops) k = Some t"
    using assms dead_run by blast
  have fail: "\<forall>k t e now. getTask d k = Some t \<and> task_status t \<noteq> Dead \<and> 1 \<le> max_attempts t \<longrightarrow>
      fst (markTaskFailed d k e now) = Inr () \<and>
      getTask (snd (markTaskFailed d k e now)) k =
        Some (t\<lparr>task_status := (if attempts t + 1 \<ge> max_attempts t then Dead else Queued),
                attempts := attempts t + 1, last_error := Some e,
                locked_until := None, locked_by := None, task_updated_at := now\<rparr>)"
  proof (intro allI impI, elim conjE)
    fix k t e now
    assume t: "getTask d k = Some t" "task_status t \<noteq> Dead" "1 \<le> max_attempts t"
    have "t \<in> set (tasks d)"
      using t(1) find_id_mem[of k "tasks d" t] by (simp add: getTask_def)
    then have "task_ok t" using assms(1) by (simp add: queue_inv_def)
    then have "attempts t < 2147483647"
      using t(2,3) by (simp add: task_ok_def int4_def)
    from failed_any[OF assms(1) t(1) this, of e now]
    show "fst (markTaskFailed d k e now) = Inr () \<and>
      getTask (snd (markTaskFailed d k e now)) k =
        Some (t\<lparr>task_status := (if attempts t + 1 \<ge> max_attempts t then Dead else Queued),
                attempts := attempts t + 1, last_error := Some e,
                locked_until := None, locked_by := None, task_updated_at := now\<rparr>)"
      by (simp add: fail_row_def)
  qed
  from inv bound dead fail show ?thesis by blast
qed

theorem attempts_bounded_dead_final_witness:
  "queue_inv queue0 \<and> dead_left_alone queue0 ops0 \<and>
   map (\<lambda>t. (task_id t, task_status t, attempts t, max_attempts t)) (tasks (run_ops queue0 ops0))
     = [(''T0'', Dead, 1, 1), (''T1'', Dead, 3, 3), (''T2'', Queued, 0, 2)] \<and>
   queue_inv (run_ops queue0 ops0) \<and>
   getTask (run_ops queue0 ops0) ''T0'' = getTask queue0 ''T0'' \<and>
   map_option (\<lambda>t. (task_status t, attempts t, locked_until t, locked_by t, last_error t))
     (getTask (snd (markTaskFailed queue0 ''T1'' ''e1'' 3)) ''T1'')
     = Some (Queued, 1, None, None, Some ''e1'')"
proof -
  have h1: "queue_inv queue0"
    by (simp add: queue_inv_def queue0_def empty_db_def task_ok_def int4_def)
  have h2: "dead_left_alone queue0 ops0"
    unfolding queue0_def ops0_def by code_simp
  have t0: "getTask queue0 ''T0'' = Some (hd (tasks queue0)) \<and> task_status (hd (tasks queue0)) = Dead"
    by (simp add: getTask_def queue0_def empty_db_def)
  have t1: "getTask queue0 ''T1'' = Some (tasks queue0 ! 1) \<and>
      task_status (tasks queue0 ! 1) \<noteq> Dead \<and> 1 \<le> max_attempts (tasks queue0 ! 1)"
    by (simp add: getTask_def queue0_def empty_db_def)
  note main = attempts_bounded_dead_final[OF h1 h2]
  have c1: "queue_inv (run_ops queue0 ops0)" using main by blast
  have c2: "getTask (run_ops queue0 ops0) ''T0'' = getTask queue0 ''T0''"
    using main t0 by metis
  have c3: "map (\<lambda>t. (task_id t, task_status t, attempts t, max_attempts t)) (tasks (run_ops queue0 ops0))
     = [(''T0'', Dead, 1, 1), (''T1'', Dead, 3, 3), (''T2'', Queued, 0, 2)]"
    unfolding queue0_def ops0_def job_def by code_simp
  have "getTask (snd (markTaskFailed queue0 ''T1'' ''e1'' 3)) ''T1'' =
      Some ((tasks queue0 ! 1)\<lparr>task_status :=
              (if attempts (tasks queue0 ! 1) + 1 \<ge> max_attempts (tasks queue0 ! 1)
               then Dead else Queued),
            attempts := attempts (tasks queue0 ! 1) + 1, last_error := Some ''e1'',
            locked_until := None, locked_by := None, task_updated_at := 3\<rparr>)"
    using main t1 by blast
  then have c4: "map_option (\<lambda>t. (task_status t, attempts t, locked_until t, locked_by t, last_error t))
     (getTask (snd (markTaskFailed queue0 ''T1'' ''e1'' 3)) ''T1'')
     = Some (Queued, 1, None, None, Some ''e1'')"
    by (simp add: queue0_def empty_db_def)
  from h1 h2 c1 c2 c3 c4 show ?thesis by blast
qed

section \<open>Properties of the blob store\<close>

lemma putBlob_present:
  "sha256 H bytes \<in> set (map blob_id (blobs d)) \<Longrightarrow>
   putBlob H d now bytes m = (Inr \<lparr>blobId = sha256 H bytes, inserted = False\<rparr>, d)"
  by (simp add: putBlob_def Let_def)

lemma putBlob_absent:
  "sha256 H bytes \<notin> set (map blob_id (blobs d)) \<Longrightarrow>
   putBlob H d now bytes m =
     (Inr \<lparr>blobId = sha256 H bytes, inserted = True\<rparr>,
      d\<lparr>blobs := blobs d @ [\<lparr>blob_id = sha256 H bytes, size_bytes = length bytes,
                              mime_type = m, blob_created_at = now\<rparr>]\<rparr>)"
  by (simp add: putBlob_def Let_def)

text \<open>
  C10. putBlob on the same bytes twice, in a store that does not hold them yet: both
  calls return the same digest, the first reports \<open>inserted = True\<close>, the second
  \<open>inserted = False\<close>, and the second leaves the store exactly as the first left it. (The
  calls may differ in time and in the mime type they pass.)
\<close>

theorem putBlob_twice:
  assumes "sha256 H bytes \<notin> set (map blob_id (blobs d))"
    and "putBlob H d now1 bytes m1 = (r1, d1)"
    and "putBlob H d1 now2 bytes m2 = (r2, d2)"
  shows "r1 = Inr \<lparr>blobId = sha256 H bytes, inserted = True\<rparr> \<and>
         r2 = Inr \<lparr>blobId = sha256 H bytes, inserted = False\<rparr> \<and>
         d2 = d1 \<and>
         getBlob d2 (sha256 H bytes) =
           Some \<lparr>blob_id = sha256 H bytes, size_bytes = length bytes, mime_type = m1,
                 blob_created_at = now1\<rparr>"
proof -
  have first: "r1 = Inr \<lparr>blobId = sha256 H bytes, inserted = True\<rparr>"
    and d1: "d1 = d\<lparr>blobs := blobs d @ [\<lparr>blob_id = sha256 H bytes, size_bytes = length bytes,
                              mime_type = m1, blob_created_at = now1\<rparr>]\<rparr>"
    using assms(1,2) by (simp_all add: putBlob_absent)
  have "sha256 H bytes \<in> set (map blob_id (blobs d1))"
    by (simp add: d1)
  then have second: "r2 = Inr \<lparr>blobId = sha256 H bytes, inserted = False\<rparr>" "d2 = d1"
    using assms(3) by (simp_all add: putBlob_present)
  have "find (\<lambda>b. blob_id b = sha256 H bytes) (blobs d) = None"
    using assms(1) by (simp add: find_None_iff) (metis image_eqI)
  then have "getBlob d1 (sha256 H bytes) =
      Some \<lparr>blob_id = sha256 H bytes, size_bytes = length bytes, mime_type = m1,
            blob_created_at = now1\<rparr>"
    by (simp add: getBlob_def d1 find_app)
  with first second show ?thesis by simp
qed

theorem putBlob_twice_witness:
  "sha256 (\<lambda>bs. ''2cf2'') [104, 105] \<notin> set (map blob_id (blobs empty_db)) \<and>
   fst (putBlob (\<lambda>bs. ''2cf2'') empty_db 7 [104, 105] (Some ''text/plain''))
     = Inr \<lparr>blobId = ''sha256:2cf2'', inserted = True\<rparr> \<and>
   putBlob (\<lambda>bs. ''2cf2'')
       (snd (putBlob (\<lambda>bs. ''2cf2'') empty_db 7 [104, 105] (Some ''text/plain''))) 9 [104, 105] None
     = (Inr \<lparr>blobId = ''sha256:2cf2'', inserted = False\<rparr>,
        snd (putBlob (\<lambda>bs. ''2cf2'') empty_db 7 [104, 105] (Some ''text/plain'')))"
proof -
  have h: "sha256 (\<lambda>bs. ''2cf2'') [104, 105] \<notin> set (map blob_id (blobs empty_db))"
    by (simp add: empty_db_def)
  show ?thesis
    using h putBlob_twice[OF h, of 7 "Some ''text/plain''"
        "fst (putBlob (\<lambda>bs. ''2cf2'') empty_db 7 [104, 105] (Some ''text/plain''))"
        "snd (putBlob (\<lambda>bs. ''2cf2'') empty_db 7 [104, 105] (Some ''text/plain''))" 9 None
        "fst (putBlob (\<lambda>bs. ''2cf2'')
           (snd (putBlob (\<lambda>bs. ''2cf2'') empty_db 7 [104, 105] (Some ''text/plain''))) 9 [104, 105] None)"
        "snd (putBlob (\<lambda>bs. ''2cf2'')
           (snd (putBlob (\<lambda>bs. ''2cf2'') empty_db 7 [104, 105] (Some ''text/plain''))) 9 [104, 105] None)"]
    by (simp add: sha256_def prod_eq_iff)
qed


section \<open>Properties of the dedup resolver\<close>

lemma mostRecent_mem: "mostRecent xs = Some m \<Longrightarrow> m \<in> set xs"
proof -
  assume "mostRecent xs = Some m"
  then obtain rest where "sort_key (\<lambda>i. - item_created_at i) xs = m # rest"
    by (auto simp: mostRecent_def split: list.splits)
  then have "m \<in> set (sort_key (\<lambda>i. - item_created_at i) xs)"
    by simp
  then show ?thesis by simp
qed

lemma mostRecent_latest:
  assumes "mostRecent xs = Some m" "x \<in> set xs"
  shows "item_created_at x \<le> item_created_at m"
proof -
  obtain rest where s: "sort_key (\<lambda>i. - item_created_at i) xs = m # rest"
    using assms(1) by (auto simp: mostRecent_def split: list.splits)
  have "sorted (map (\<lambda>i. - item_created_at i) (m # rest))"
    using sorted_sort_key[of "\<lambda>i. - item_created_at i" xs] s by simp
  moreover have "x \<in> set (m # rest)"
    using assms(2) s set_sort[of "\<lambda>i. - item_created_at i" xs] by simp
  ultimately show ?thesis by auto
qed

lemma hashMatchOf_mem: "hashMatchOf d h = Some m \<Longrightarrow> m \<in> set (items d) \<and> content_sha256 m = Some h"
  using mostRecent_mem[of "findItemsByContentSha256 d h" m]
  by (simp add: hashMatchOf_def findItemsByContentSha256_def)

lemma uriMatchOf_mem: "uriMatchOf d u = Some m \<Longrightarrow> m \<in> set (items d) \<and> canonical_uri m = Some u"
  using mostRecent_mem[of "if u \<noteq> [] then findItemsByCanonicalUri d u else []" m]
  by (auto simp: uriMatchOf_def findItemsByCanonicalUri_def split: if_splits)

lemma putBlob_frame:
  "\<exists>ins d1. putBlob H d now bytes m = (Inr \<lparr>blobId = sha256 H bytes, inserted = ins\<rparr>, d1) \<and>
     sha256 H bytes \<in> set (map blob_id (blobs d1)) \<and> items d1 = items d \<and>
     edges d1 = edges d \<and> runs d1 = runs d \<and> run_outputs d1 = run_outputs d \<and>
     run_inputs d1 = run_inputs d \<and> run_logs d1 = run_logs d \<and> tasks d1 = tasks d"
  by (cases "sha256 H bytes \<in> set (map blob_id (blobs d))") (auto simp: putBlob_def Let_def)

lemma hashMatchOf_items: "items d1 = items d \<Longrightarrow> hashMatchOf d1 h = hashMatchOf d h"
  by (simp add: hashMatchOf_def findItemsByContentSha256_def)

lemma uriMatchOf_items: "items d1 = items d \<Longrightarrow> uriMatchOf d1 u = uriMatchOf d u"
  by (simp add: uriMatchOf_def findItemsByCanonicalUri_def)

text \<open>
  The first half of collectUrl, for a response with a 2xx status and an item id that is
  not in use: the blob is put, the matches are those of the store before the call, the
  new item is appended, and the second half runs on that store.
\<close>

lemma collectUrl_stored:
  assumes "fetchFn c url = Inr response"
    and "200 \<le> resp_status response" "resp_status response < 300"
    and "ulid c (seq w) \<notin> set (map item_id (items (store w)))"
  shows "\<exists>it d2. collectUrl c w runId url observedAt =
             linkItem c \<lparr>store = d2, seq = Suc (seq w)\<rparr> runId url (normalizeUrl c url) it
               (resolveMatch
                  (hashMatchOf (store w) (computeContentSha256 c (resp_body response)))
                  (uriMatchOf (store w) (normalizeUrl c url)))
               (uriMatchOf (store w) (normalizeUrl c url))
               (hashMatchOf (store w) (computeContentSha256 c (resp_body response))) \<and>
           item_id it = ulid c (seq w) \<and>
           canonical_uri it = Some (normalizeUrl c url) \<and>
           content_sha256 it = Some (computeContentSha256 c (resp_body response)) \<and>
           item_created_at it = clock c (seq w) \<and>
           items d2 = items (store w) @ [it] \<and> edges d2 = edges (store w) \<and>
           runs d2 = runs (store w) \<and> run_outputs d2 = run_outputs (store w) \<and>
           run_logs d2 = run_logs (store w)"
proof -
  obtain ins d1 where p:
    "putBlob (hexdigest c) (store w) (clock c (seq w)) (resp_body response)
        (Some (content_mime (resp_headers response)))
      = (Inr \<lparr>blobId = sha256 (hexdigest c) (resp_body response), inserted = ins\<rparr>, d1)"
    "sha256 (hexdigest c) (resp_body response) \<in> set (map blob_id (blobs d1))"
    "items d1 = items (store w)" "edges d1 = edges (store w)" "runs d1 = runs (store w)"
    "run_outputs d1 = run_outputs (store w)" "run_logs d1 = run_logs (store w)"
    using putBlob_frame[of "hexdigest c" "store w" "clock c (seq w)" "resp_body response"
        "Some (content_mime (resp_headers response))"]
    by blast
  have fresh: "ulid c (seq w) \<notin> set (map item_id (items d1))"
    using assms(4) p(3) by simp
  show ?thesis
    using assms(1,2,3) p fresh
    by (simp add: collectUrl_def Let_def createItem_def items_one_payload_def
        hashMatchOf_items[OF p(3)] uriMatchOf_items[OF p(3)])
       (rule exI, rule exI, intro conjI, rule refl, simp_all)
qed

text \<open>The second half of collectUrl when a predecessor was selected.\<close>

lemma linkItem_supersedes:
  assumes "existingItem sel = Some ex" and "item_id ex \<noteq> item_id it"
    and "runId \<in> set (map run_id (runs (store w)))"
    and "item_id it \<in> set (map item_id (items (store w)))"
    and "item_id ex \<in> set (map item_id (items (store w)))"
    and "(runId, item_id it) \<notin> set (run_outputs (store w))"
    and "ulid c (seq w) \<notin> set (map edge_id (edges (store w)))"
    and "ulid c (Suc (seq w)) \<notin> set (map log_id (run_logs (store w)))"
  shows "fst (linkItem c w runId url cu it sel um hm) =
           Inr \<lparr>hs_itemId = item_id it, hs_url = url, hs_canonicalUri = cu, hs_isNew = False,
                 hs_supersededItemId = Some (item_id ex)\<rparr>"
    and "edges (store (snd (linkItem c w runId url cu it sel um hm))) = edges (store w) @
           [\<lparr>edge_id = ulid c (seq w), from_item_id = item_id ex, to_item_id = item_id it,
             rel = ''supersedes'', edge_meta = edgeMeta sel ex cu um hm,
             edge_created_at = clock c (seq w)\<rparr>]"
    and "map (\<lambda>l. (log_run_id l, level l))
           (run_logs (store (snd (linkItem c w runId url cu it sel um hm)))) =
           map (\<lambda>l. (log_run_id l, level l)) (run_logs (store w)) @
             [(runId, if conflictResolved sel then Warn else Info)]"
  using assms
  by (simp_all add: linkItem_def addRunOutput_def insert_link_def createEdge_def Let_def
      appendLog_def appendRunLog_def)

lemma linkItem_new:
  assumes "existingItem sel = None"
    and "runId \<in> set (map run_id (runs (store w)))"
    and "item_id it \<in> set (map item_id (items (store w)))"
    and "(runId, item_id it) \<notin> set (run_outputs (store w))"
    and "ulid c (seq w) \<notin> set (map log_id (run_logs (store w)))"
  shows "fst (linkItem c w runId url cu it sel um hm) =
           Inr \<lparr>hs_itemId = item_id it, hs_url = url, hs_canonicalUri = cu, hs_isNew = True,
                 hs_supersededItemId = None\<rparr>"
    and "map (\<lambda>l. (log_run_id l, level l))
           (run_logs (store (snd (linkItem c w runId url cu it sel um hm)))) =
           map (\<lambda>l. (log_run_id l, level l)) (run_logs (store w)) @ [(runId, Info)]"
  using assms
  by (simp_all add: linkItem_def addRunOutput_def insert_link_def appendLog_def appendRunLog_def)


text \<open>
  C1. collectUrl for a URL that answers with a 2xx status, under an existing run and
  with identifiers that are not in use. When the most recent item with the content's
  digest and the most recent item with the canonical URI both exist and are different
  items, the digest match is the predecessor: the result names it as superseded, one
  'supersedes' edge from it to the new item is added, whose metadata holds the reason and
  selection \<open>content_sha256\<close> and the ids of both candidates, and the run's log gets one
  line at level 'warn'. In every other case the call succeeds too and the run's log gets
  one line at level 'info'.
\<close>

theorem collectUrl_digest_precedence:
  assumes "fetchFn c url = Inr response"
    and "200 \<le> resp_status response" and "resp_status response < 300"
    and "runId \<in> set (map run_id (runs (store w)))"
    and "ulid c (seq w) \<notin> set (map item_id (items (store w)))"
    and "ulid c (seq w) \<notin> snd ` set (run_outputs (store w))"
    and "ulid c (Suc (seq w)) \<notin> set (map edge_id (edges (store w)))"
    and "ulid c (Suc (seq w)) \<notin> set (map log_id (run_logs (store w)))"
    and "ulid c (Suc (Suc (seq w))) \<notin> set (map log_id (run_logs (store w)))"
    and "hashMatchOf (store w) (computeContentSha256 c (resp_body response)) = hashMatch"
    and "uriMatchOf (store w) (normalizeUrl c url) = uriMatch"
  shows "(\<forall>h u. hashMatch = Some h \<and> uriMatch = Some u \<and> item_id h \<noteq> item_id u \<longrightarrow>
            fst (collectUrl c w runId url observedAt) =
              Inr \<lparr>hs_itemId = ulid c (seq w), hs_url = url,
                    hs_canonicalUri = normalizeUrl c url, hs_isNew = False,
                    hs_supersededItemId = Some (item_id h)\<rparr> \<and>
            edges (store (snd (collectUrl c w runId url observedAt))) = edges (store w) @
              [\<lparr>edge_id = ulid c (Suc (seq w)), from_item_id = item_id h,
                to_item_id = ulid c (seq w), rel = ''supersedes'',
                edge_meta = JObj
                  [(''reason'', JStr ''content_sha256''),
                   (''original_canonical_uri'', json_opt (canonical_uri h)),
                   (''new_canonical_uri'', JStr (normalizeUrl c url)),
                   (''conflict_resolved'', JBool True),
                   (''canonical_uri_match'', JStr (item_id u)),
                   (''content_sha256_match'', JStr (item_id h)),
                   (''selected'', JStr ''content_sha256'')],
                edge_created_at = clock c (Suc (seq w))\<rparr>] \<and>
            map (\<lambda>l. (log_run_id l, level l))
              (run_logs (store (snd (collectUrl c w runId url observedAt)))) =
              map (\<lambda>l. (log_run_id l, level l)) (run_logs (store w)) @ [(runId, Warn)]) \<and>
         (\<not> (\<exists>h u. hashMatch = Some h \<and> uriMatch = Some u \<and> item_id h \<noteq> item_id u) \<longrightarrow>
            (\<exists>r. fst (collectUrl c w runId url observedAt) = Inr r) \<and>
            map (\<lambda>l. (log_run_id l, level l))
              (run_logs (store (snd (collectUrl c w runId url observedAt)))) =
              map (\<lambda>l. (log_run_id l, level l)) (run_logs (store w)) @ [(runId, Info)])"
proof -
  obtain it d2 where st:
    "collectUrl c w runId url observedAt =
       linkItem c \<lparr>store = d2, seq = Suc (seq w)\<rparr> runId url (normalizeUrl c url) it
         (resolveMatch hashMatch uriMatch) uriMatch hashMatch"
    "item_id it = ulid c (seq w)"
    "items d2 = items (store w) @ [it]" "edges d2 = edges (store w)"
    "runs d2 = runs (store w)" "run_outputs d2 = run_outputs (store w)"
    "run_logs d2 = run_logs (store w)"
    using collectUrl_stored[OF assms(1,2,3,5), of runId observedAt] assms(10,11) by auto
  let ?w2 = "\<lparr>store = d2, seq = Suc (seq w)\<rparr>"
  have run: "runId \<in> set (map run_id (runs (store ?w2)))"
    using assms(4) st(5) by simp
  have new: "item_id it \<in> set (map item_id (items (store ?w2)))"
    using st(3) by simp
  have out: "(runId, item_id it) \<notin> set (run_outputs (store ?w2))"
    using assms(6) st(2,6) by (auto simp: image_iff)
  have e: "ulid c (seq ?w2) \<notin> set (map edge_id (edges (store ?w2)))"
    using assms(7) st(4) by simp
  have l1: "ulid c (seq ?w2) \<notin> set (map log_id (run_logs (store ?w2)))"
    using assms(8) st(7) by simp
  have l2: "ulid c (Suc (seq ?w2)) \<notin> set (map log_id (run_logs (store ?w2)))"
    using assms(9) st(7) by simp
  have old: "item_id x \<in> set (map item_id (items (store ?w2)))" "item_id x \<noteq> item_id it"
    if "x \<in> set (items (store w))" for x
  proof -
    have "item_id x \<in> item_id ` set (items (store w))"
      using that by (rule imageI)
    then show "item_id x \<in> set (map item_id (items (store ?w2)))" "item_id x \<noteq> item_id it"
      using assms(5) st(2,3) by auto
  qed
  have conflict: "\<forall>h u. hashMatch = Some h \<and> uriMatch = Some u \<and> item_id h \<noteq> item_id u \<longrightarrow>
            fst (collectUrl c w runId url observedAt) =
              Inr \<lparr>hs_itemId = ulid c (seq w), hs_url = url,
                    hs_canonicalUri = normalizeUrl c url, hs_isNew = False,
                    hs_supersededItemId = Some (item_id h)\<rparr> \<and>
            edges (store (snd (collectUrl c w runId url observedAt))) = edges (store w) @
              [\<lparr>edge_id = ulid c (Suc (seq w)), from_item_id = item_id h,
                to_item_id = ulid c (seq w), rel = ''supersedes'',
                edge_meta = JObj
                  [(''reason'', JStr ''content_sha256''),
                   (''original_canonical_uri'', json_opt (canonical_uri h)),
                   (''new_canonical_uri'', JStr (normalizeUrl c url)),
                   (''conflict_resolved'', JBool True),
                   (''canonical_uri_match'', JStr (item_id u)),
                   (''content_sha256_match'', JStr (item_id h)),
                   (''selected'', JStr ''content_sha256'')],
                edge_created_at = clock c (Suc (seq w))\<rparr>] \<and>
            map (\<lambda>l. (log_run_id l, level l))
              (run_logs (store (snd (collectUrl c w runId url observedAt)))) =
              map (\<lambda>l. (log_run_id l, level l)) (run_logs (store w)) @ [(runId, Warn)]"
  proof (intro allI impI, elim conjE)
    fix h u
    assume hu: "hashMatch = Some h" "uriMatch = Some u" "item_id h \<noteq> item_id u"
    let ?sel = "\<lparr>existingItem = Some h, conflictResolved = True,
                  selectedMatch = Some ContentSha256\<rparr>"
    have hin: "h \<in> set (items (store w))"
      using hashMatchOf_mem assms(10) hu(1) by blast
    have rs: "resolveMatch hashMatch uriMatch = ?sel"
      using hu by (simp add: resolveMatch_def)
    have ex: "existingItem ?sel = Some h"
      by simp
    have meta: "edgeMeta ?sel h (normalizeUrl c url) uriMatch hashMatch = JObj
                  [(''reason'', JStr ''content_sha256''),
                   (''original_canonical_uri'', json_opt (canonical_uri h)),
                   (''new_canonical_uri'', JStr (normalizeUrl c url)),
                   (''conflict_resolved'', JBool True),
                   (''canonical_uri_match'', JStr (item_id u)),
                   (''content_sha256_match'', JStr (item_id h)),
                   (''selected'', JStr ''content_sha256'')]"
      using hu(1,2) by (simp add: edgeMeta_def json_opt_def)
    note lk = linkItem_supersedes[OF ex old(2)[OF hin] run new old(1)[OF hin] out e l2,
        of url "normalizeUrl c url" uriMatch hashMatch]
    show "fst (collectUrl c w runId url observedAt) =
              Inr \<lparr>hs_itemId = ulid c (seq w), hs_url = url,
                    hs_canonicalUri = normalizeUrl c url, hs_isNew = False,
                    hs_supersededItemId = Some (item_id h)\<rparr> \<and>
            edges (store (snd (collectUrl c w runId url observedAt))) = edges (store w) @
              [\<lparr>edge_id = ulid c (Suc (seq w)), from_item_id = item_id h,
                to_item_id = ulid c (seq w), rel = ''supersedes'',
                edge_meta = JObj
                  [(''reason'', JStr ''content_sha256''),
                   (''original_canonical_uri'', json_opt (canonical_uri h)),
                   (''new_canonical_uri'', JStr (normalizeUrl c url)),
                   (''conflict_resolved'', JBool True),
                   (''canonical_uri_match'', JStr (item_id u)),
                   (''content_sha256_match'', JStr (item_id h)),
                   (''selected'', JStr ''content_sha256'')],
                edge_created_at = clock c (Suc (seq w))\<rparr>] \<and>
            map (\<lambda>l. (log_run_id l, level l))
              (run_logs (store (snd (collectUrl c w runId url observedAt)))) =
              map (\<lambda>l. (log_run_id l, level l)) (run_logs (store w)) @ [(runId, Warn)]"
      unfolding st(1) rs lk meta using st(2,4,7) by simp
  qed
  have plain: "\<not> (\<exists>h u. hashMatch = Some h \<and> uriMatch = Some u \<and> item_id h \<noteq> item_id u) \<longrightarrow>
            (\<exists>r. fst (collectUrl c w runId url observedAt) = Inr r) \<and>
            map (\<lambda>l. (log_run_id l, level l))
              (run_logs (store (snd (collectUrl c w runId url observedAt)))) =
              map (\<lambda>l. (log_run_id l, level l)) (run_logs (store w)) @ [(runId, Info)]"
  proof
    assume no: "\<not> (\<exists>h u. hashMatch = Some h \<and> uriMatch = Some u \<and> item_id h \<noteq> item_id u)"
    show "(\<exists>r. fst (collectUrl c w runId url observedAt) = Inr r) \<and>
            map (\<lambda>l. (log_run_id l, level l))
              (run_logs (store (snd (collectUrl c w runId url observedAt)))) =
              map (\<lambda>l. (log_run_id l, level l)) (run_logs (store w)) @ [(runId, Info)]"
    proof (cases "existingItem (resolveMatch hashMatch uriMatch)")
      case None
      note lk = linkItem_new[OF None run new out l1, of url "normalizeUrl c url" uriMatch hashMatch]
      show ?thesis
        unfolding st(1) lk using st(7) by simp
    next
      case (Some ex)
      have nc: "conflictResolved (resolveMatch hashMatch uriMatch) = False"
        using no by (cases hashMatch; cases uriMatch) (auto simp: resolveMatch_def)
      have xin: "ex \<in> set (items (store w))"
      proof (cases hashMatch)
        case None
        then have "uriMatch = Some ex"
          using Some by (cases uriMatch) (simp_all add: resolveMatch_def)
        then show ?thesis using uriMatchOf_mem assms(11) by blast
      next
        case (Some h)
        then have "ex = h"
          using \<open>existingItem (resolveMatch hashMatch uriMatch) = Some ex\<close>
          by (cases uriMatch) (simp_all add: resolveMatch_def split: if_splits)
        then show ?thesis using hashMatchOf_mem assms(10) Some by blast
      qed
      note lk = linkItem_supersedes[OF Some old(2)[OF xin] run new old(1)[OF xin] out e l2,
          of url "normalizeUrl c url" uriMatch hashMatch]
      show ?thesis
        unfolding st(1) lk nc using st(7) by simp
    qed
  qed
  from conflict plain show ?thesis by (rule conjI)
qed

theorem collectUrl_digest_precedence_witness:
  "fst (collectUrl ctx0 lake1 ''R'' ''https://d.example/'' 100) =
     Inr \<lparr>hs_itemId = ''ID0'', hs_url = ''https://d.example/'',
           hs_canonicalUri = ''https://d.example'', hs_isNew = False,
           hs_supersededItemId = Some ''A''\<rparr> \<and>
   map (\<lambda>e. (from_item_id e, to_item_id e, rel e, edge_meta e))
     (edges (store (snd (collectUrl ctx0 lake1 ''R'' ''https://d.example/'' 100)))) =
     [(''A'', ''ID0'', ''supersedes'',
       JObj [(''reason'', JStr ''content_sha256''),
             (''original_canonical_uri'', JStr ''https://a.example''),
             (''new_canonical_uri'', JStr ''https://d.example''),
             (''conflict_resolved'', JBool True),
             (''canonical_uri_match'', JStr ''B''),
             (''content_sha256_match'', JStr ''A''),
             (''selected'', JStr ''content_sha256'')])] \<and>
   map (\<lambda>l. (log_run_id l, level l))
     (run_logs (store (snd (collectUrl ctx0 lake1 ''R'' ''https://d.example/'' 100)))) =
     [(''R'', Warn)]"
proof -
  let ?resp = "\<lparr>resp_status = 200,
                 resp_headers = [(''content-type'', ''text/html; charset=utf-8'')],
                 resp_body = [104, 105]\<rparr>"
  have f: "fetchFn ctx0 ''https://d.example/'' = Inr ?resp"
    by (simp add: ctx0_def)
  have s: "200 \<le> resp_status ?resp" "resp_status ?resp < 300"
    by simp_all
  have r: "''R'' \<in> set (map run_id (runs (store lake1)))"
    by (simp add: lake1_def run_of_def empty_db_def)
  have ids: "ulid ctx0 (seq lake1) = ''ID0''"
    unfolding ctx0_def lake1_def by code_simp
  have n: "normalizeUrl ctx0 ''https://d.example/'' = ''https://d.example''"
    unfolding ctx0_def by code_simp
  have dg: "computeContentSha256 ctx0 (resp_body ?resp) = ''sha256:'' @ digest_hi"
    by (simp add: ctx0_def digest0_def)
  have ne: "digest_yo \<noteq> digest_hi"
    unfolding digest_yo_def digest_hi_def by code_simp
  have i: "ulid ctx0 (seq lake1) \<notin> set (map item_id (items (store lake1)))"
    unfolding ids by (simp add: lake1_def page_def empty_db_def)
  have ro: "ulid ctx0 (seq lake1) \<notin> snd ` set (run_outputs (store lake1))"
    by (simp add: lake1_def empty_db_def)
  have e: "ulid ctx0 (Suc (seq lake1)) \<notin> set (map edge_id (edges (store lake1)))"
    by (simp add: lake1_def empty_db_def)
  have l1: "ulid ctx0 (Suc (seq lake1)) \<notin> set (map log_id (run_logs (store lake1)))"
    by (simp add: lake1_def empty_db_def)
  have l2: "ulid ctx0 (Suc (Suc (seq lake1))) \<notin> set (map log_id (run_logs (store lake1)))"
    by (simp add: lake1_def empty_db_def)
  have h: "hashMatchOf (store lake1) (computeContentSha256 ctx0 (resp_body ?resp)) =
      Some (page ''A'' ''https://a.example'' digest_hi 10)"
    unfolding dg using ne
    by (simp add: hashMatchOf_def findItemsByContentSha256_def mostRecent_def lake1_def
        page_def empty_db_def)
  have u: "uriMatchOf (store lake1) (normalizeUrl ctx0 ''https://d.example/'') =
      Some (page ''B'' ''https://d.example'' digest_yo 20)"
    unfolding n
    by (simp add: uriMatchOf_def findItemsByCanonicalUri_def mostRecent_def lake1_def
        page_def empty_db_def)
  have d: "item_id (page ''A'' ''https://a.example'' digest_hi 10) \<noteq>
      item_id (page ''B'' ''https://d.example'' digest_yo 20)"
    by (simp add: page_def)
  note res = collectUrl_digest_precedence[OF f s r i ro e l1 l2 h u, of 100,
      THEN conjunct1, rule_format, OF conjI[OF refl conjI[OF refl d]]]
  show ?thesis
    using res[unfolded ids n]
    by (simp add: page_def json_opt_def lake1_def empty_db_def)
qed

text \<open>
  C2. The match queries consult only items produced under the normalization version of
  the observing run. The code does not do so: the queries filter on \<open>canonical_uri\<close> and
  \<open>content_sha256\<close> alone, an item carries no version, and the version of the run is never
  read. Run R1 (version \<open>url_v1\<close>) collects a.example into an empty store, which makes item
  \<open>ID0\<close> its output; then run R2 (version \<open>url_v2\<close>) collects the same URL, and \<open>ID0\<close> is
  selected as the predecessor of its item \<open>ID2\<close>.
\<close>

theorem collectUrl_crosses_normalization_versions:
  "map (\<lambda>r. (run_id r, normalization_version r)) (runs (store lake2)) =
     [(''R1'', ''http_snapshot_url_v1_text_v1''), (''R2'', ''http_snapshot_url_v2_text_v1'')] \<and>
   fst (collectUrl ctx0 lake2 ''R1'' ''https://a.example/'' 100) =
     Inr \<lparr>hs_itemId = ''ID0'', hs_url = ''https://a.example/'',
           hs_canonicalUri = ''https://a.example'', hs_isNew = True,
           hs_supersededItemId = None\<rparr> \<and>
   fst (collectUrl ctx0 (snd (collectUrl ctx0 lake2 ''R1'' ''https://a.example/'' 100))
          ''R2'' ''https://a.example/'' 102) =
     Inr \<lparr>hs_itemId = ''ID2'', hs_url = ''https://a.example/'',
           hs_canonicalUri = ''https://a.example'', hs_isNew = False,
           hs_supersededItemId = Some ''ID0''\<rparr> \<and>
   map (\<lambda>e. (from_item_id e, to_item_id e, rel e))
     (edges (store (snd (collectUrl ctx0
        (snd (collectUrl ctx0 lake2 ''R1'' ''https://a.example/'' 100))
        ''R2'' ''https://a.example/'' 102)))) =
     [(''ID0'', ''ID2'', ''supersedes'')] \<and>
   run_outputs (store (snd (collectUrl ctx0
        (snd (collectUrl ctx0 lake2 ''R1'' ''https://a.example/'' 100))
        ''R2'' ''https://a.example/'' 102))) =
     [(''R1'', ''ID0''), (''R2'', ''ID2'')]"
  unfolding lake2_def ctx0_def run_of_def digest0_def digest_hi_def digest_yo_def by code_simp


section \<open>Properties of the run ledger\<close>

lemma key_filter_none:
  "Some k \<notin> set (map idempotency_key rs) \<Longrightarrow> filter (\<lambda>r. idempotency_key r = Some k) rs = []"
  by (induction rs) auto

lemma key_filter_single:
  "distinct (filter (\<lambda>x. x \<noteq> None) (map idempotency_key rs)) \<Longrightarrow> r \<in> set rs \<Longrightarrow>
   idempotency_key r = Some k \<Longrightarrow> filter (\<lambda>r. idempotency_key r = Some k) rs = [r]"
proof (induction rs)
  case Nil
  then show ?case by simp
next
  case (Cons a rs)
  show ?case
  proof (cases "idempotency_key a = Some k")
    case True
    then have "Some k \<notin> set (map idempotency_key rs)"
      using Cons.prems(1) by auto
    then have none: "filter (\<lambda>r. idempotency_key r = Some k) rs = []"
      by (rule key_filter_none)
    then have "r \<notin> set rs"
      using Cons.prems(3) by (auto simp: filter_empty_conv)
    then have "r = a" using Cons.prems(2) by simp
    then show ?thesis using True none by simp
  next
    case False
    then have "r \<in> set rs" using Cons.prems(2,3) by auto
    moreover have "distinct (filter (\<lambda>x. x \<noteq> None) (map idempotency_key rs))"
      using Cons.prems(1) by (simp split: if_splits)
    ultimately show ?thesis using Cons.IH Cons.prems(3) False by simp
  qed
qed

lemma insert_run_unique: "runs_unique d \<Longrightarrow> runs_unique (snd (insert_run d row))"
  by (auto simp: insert_run_def runs_unique_def split: option.splits)

lemma startRun_unique: "runs_unique d \<Longrightarrow> runs_unique (snd (startRun d i now inp))"
proof -
  assume u: "runs_unique d"
  show ?thesis
  proof (cases "filter (\<lambda>r. idempotency_key r = Some (idempotencyKey inp)) (runs d)")
    case Nil
    then show ?thesis
      using insert_run_unique[OF u]
      by (simp add: startRun_def split: prod.splits sum.splits) (metis snd_conv)
  next
    case (Cons a rest)
    then show ?thesis using u by (cases rest) (simp_all add: startRun_def)
  qed
qed

text \<open>
  C5, as stated, fails on the code for createRun, the run start of store.runs.ts: a key
  that is in use makes its INSERT fail on the unique index, and the error names no run.
\<close>

theorem createRun_duplicate_key_counterexample:
  "map (\<lambda>r. (run_id r, idempotency_key r)) (runs ledger1) =
     [(''R1'', Some ''http_snapshot:2026-01-30:12:ab'')] \<and>
   createRun ledger1 ''R2'' 9 (create_input (Some ''http_snapshot:2026-01-30:12:ab''))
     = (Inl (UniqueViolation ''idx_runs_idempotency_key''), ledger1) \<and>
   fst (createRun ledger1 ''R2'' 9 (create_input (Some ''http_snapshot:2026-01-30:12:ab'')))
     \<noteq> Inl (IdempotencyConflict ''R1'')"
  by (simp add: createRun_def insert_run_def create_input_def ledger1_def run1_def
      empty_db_def)

text \<open>
  C5, amended. In a ledger that satisfies the unique indexes of the runs table, a run
  start with an idempotency key that a run already carries fails and leaves the store
  unchanged: startRun fails with \<open>IdempotencyConflict\<close> of that run's id, createRun with a
  unique violation (of the idempotency index when its run id is not in use). With a key
  no run carries and a run id not in use, startRun appends one run, with status
  'running', and returns its id; so does createRun, with or without a key, when its
  parent run, if it names one, exists.
\<close>

theorem run_start_idempotency:
  assumes "runs_unique d"
  shows "(\<forall>r \<in> set (runs d). idempotency_key r = Some (idempotencyKey inp) \<longrightarrow>
            startRun d i now inp = (Inl (IdempotencyConflict (run_id r)), d)) \<and>
         (Some (idempotencyKey inp) \<notin> set (map idempotency_key (runs d)) \<and>
          i \<notin> set (map run_id (runs d)) \<longrightarrow>
            (\<exists>row. startRun d i now inp =
                 (Inr \<lparr>sr_runId = i, sr_status = Running, sr_createdAt = now\<rparr>,
                  d\<lparr>runs := runs d @ [row]\<rparr>) \<and>
               run_id row = i \<and> run_status row = Running \<and>
               idempotency_key row = Some (idempotencyKey inp) \<and> finished_at row = None)) \<and>
         (\<forall>r \<in> set (runs d). idempotency_key r \<noteq> None \<and>
            idempotency_key r = cr_idempotencyKey cinp \<longrightarrow>
            createRun d i now cinp =
              (Inl (UniqueViolation (if i \<in> set (map run_id (runs d)) then ''runs_pkey''
                                     else ''idx_runs_idempotency_key'')), d)) \<and>
         ((cr_idempotencyKey cinp = None \<or>
           cr_idempotencyKey cinp \<notin> set (map idempotency_key (runs d))) \<and>
          i \<notin> set (map run_id (runs d)) \<and>
          (\<forall>p. cr_parentRunId cinp = Some p \<longrightarrow> p \<in> set (map run_id (runs d))) \<longrightarrow>
            (\<exists>row. createRun d i now cinp = (Inr row, d\<lparr>runs := runs d @ [row]\<rparr>) \<and>
               run_id row = i \<and> run_status row = Running \<and>
               idempotency_key row = cr_idempotencyKey cinp \<and> finished_at row = None))"
proof -
  have s1: "\<forall>r \<in> set (runs d). idempotency_key r = Some (idempotencyKey inp) \<longrightarrow>
            startRun d i now inp = (Inl (IdempotencyConflict (run_id r)), d)"
  proof (intro ballI impI)
    fix r
    assume r: "r \<in> set (runs d)" "idempotency_key r = Some (idempotencyKey inp)"
    have "distinct (filter (\<lambda>x. x \<noteq> None) (map idempotency_key (runs d)))"
      using assms unfolding runs_unique_def by blast
    then have "filter (\<lambda>r. idempotency_key r = Some (idempotencyKey inp)) (runs d) = [r]"
      using r by (rule key_filter_single)
    then show "startRun d i now inp = (Inl (IdempotencyConflict (run_id r)), d)"
      by (simp add: startRun_def)
  qed
  have s2: "Some (idempotencyKey inp) \<notin> set (map idempotency_key (runs d)) \<and>
          i \<notin> set (map run_id (runs d)) \<longrightarrow>
            (\<exists>row. startRun d i now inp =
                 (Inr \<lparr>sr_runId = i, sr_status = Running, sr_createdAt = now\<rparr>,
                  d\<lparr>runs := runs d @ [row]\<rparr>) \<and>
               run_id row = i \<and> run_status row = Running \<and>
               idempotency_key row = Some (idempotencyKey inp) \<and> finished_at row = None)"
  proof
    assume a: "Some (idempotencyKey inp) \<notin> set (map idempotency_key (runs d)) \<and>
               i \<notin> set (map run_id (runs d))"
    then have "filter (\<lambda>r. idempotency_key r = Some (idempotencyKey inp)) (runs d) = []"
      using key_filter_none by blast
    then show "\<exists>row. startRun d i now inp =
                 (Inr \<lparr>sr_runId = i, sr_status = Running, sr_createdAt = now\<rparr>,
                  d\<lparr>runs := runs d @ [row]\<rparr>) \<and>
               run_id row = i \<and> run_status row = Running \<and>
               idempotency_key row = Some (idempotencyKey inp) \<and> finished_at row = None"
      using a
      by (simp add: startRun_def insert_run_def) (rule exI, intro conjI, rule refl, simp_all)
  qed
  have c1: "\<forall>r \<in> set (runs d). idempotency_key r \<noteq> None \<and>
            idempotency_key r = cr_idempotencyKey cinp \<longrightarrow>
            createRun d i now cinp =
              (Inl (UniqueViolation (if i \<in> set (map run_id (runs d)) then ''runs_pkey''
                                     else ''idx_runs_idempotency_key'')), d)"
  proof (intro ballI impI, elim conjE)
    fix r
    assume r: "r \<in> set (runs d)" "idempotency_key r \<noteq> None"
      "idempotency_key r = cr_idempotencyKey cinp"
    have "cr_idempotencyKey cinp \<in> set (map idempotency_key (runs d))"
      using r(1,3) by force
    then show "createRun d i now cinp =
              (Inl (UniqueViolation (if i \<in> set (map run_id (runs d)) then ''runs_pkey''
                                     else ''idx_runs_idempotency_key'')), d)"
      using r(2,3) by (simp add: createRun_def insert_run_def)
  qed
  have c2: "(cr_idempotencyKey cinp = None \<or>
           cr_idempotencyKey cinp \<notin> set (map idempotency_key (runs d))) \<and>
          i \<notin> set (map run_id (runs d)) \<and>
          (\<forall>p. cr_parentRunId cinp = Some p \<longrightarrow> p \<in> set (map run_id (runs d))) \<longrightarrow>
            (\<exists>row. createRun d i now cinp = (Inr row, d\<lparr>runs := runs d @ [row]\<rparr>) \<and>
               run_id row = i \<and> run_status row = Running \<and>
               idempotency_key row = cr_idempotencyKey cinp \<and> finished_at row = None)"
    by (auto simp: createRun_def insert_run_def split: option.splits)
  from s1 s2 c1 c2 show ?thesis by (intro conjI)
qed

theorem run_start_idempotency_witness:
  "runs_unique ledger1 \<and>
   startRun ledger1 ''R2'' 9 (start_input ''http_snapshot:2026-01-30:12:ab'')
     = (Inl (IdempotencyConflict ''R1''), ledger1) \<and>
   fst (startRun ledger1 ''R2'' 9 (start_input ''http_snapshot:2026-01-30:13:ab''))
     = Inr \<lparr>sr_runId = ''R2'', sr_status = Running, sr_createdAt = 9\<rparr> \<and>
   map (\<lambda>r. (run_id r, run_status r)) (runs (snd
     (startRun ledger1 ''R2'' 9 (start_input ''http_snapshot:2026-01-30:13:ab''))))
     = [(''R1'', Succeeded), (''R2'', Running)] \<and>
   createRun ledger1 ''R2'' 9 (create_input (Some ''http_snapshot:2026-01-30:12:ab''))
     = (Inl (UniqueViolation ''idx_runs_idempotency_key''), ledger1) \<and>
   map (\<lambda>r. (run_id r, run_status r, idempotency_key r)) (runs (snd
     (createRun ledger1 ''R2'' 9 (create_input (Some ''http_snapshot:2026-01-30:13:ab'')))))
     = [(''R1'', Succeeded, Some ''http_snapshot:2026-01-30:12:ab''),
        (''R2'', Running, Some ''http_snapshot:2026-01-30:13:ab'')]"
proof -
  have u: "runs_unique ledger1"
    by (simp add: runs_unique_def ledger1_def run1_def empty_db_def)
  have m: "run1 \<in> set (runs ledger1)"
    by (simp add: ledger1_def empty_db_def)
  have k: "idempotency_key run1 =
      Some (idempotencyKey (start_input ''http_snapshot:2026-01-30:12:ab''))"
    by (simp add: run1_def start_input_def)
  have ck: "idempotency_key run1 \<noteq> None \<and> idempotency_key run1 =
      cr_idempotencyKey (create_input (Some ''http_snapshot:2026-01-30:12:ab''))"
    by (simp add: run1_def create_input_def)
  have id2: "''R2'' \<notin> set (map run_id (runs ledger1))"
    by (simp add: ledger1_def run1_def empty_db_def)
  note used = run_start_idempotency[OF u,
      of "start_input ''http_snapshot:2026-01-30:12:ab''" "''R2''" 9
         "create_input (Some ''http_snapshot:2026-01-30:12:ab'')"]
  note unused = run_start_idempotency[OF u,
      of "start_input ''http_snapshot:2026-01-30:13:ab''" "''R2''" 9
         "create_input (Some ''http_snapshot:2026-01-30:13:ab'')"]
  have "startRun ledger1 ''R2'' 9 (start_input ''http_snapshot:2026-01-30:12:ab'')
      = (Inl (IdempotencyConflict (run_id run1)), ledger1)"
    using used m k by blast
  then have c1: "startRun ledger1 ''R2'' 9 (start_input ''http_snapshot:2026-01-30:12:ab'')
      = (Inl (IdempotencyConflict ''R1''), ledger1)"
    by (simp add: run1_def)
  have "createRun ledger1 ''R2'' 9 (create_input (Some ''http_snapshot:2026-01-30:12:ab''))
      = (Inl (UniqueViolation (if ''R2'' \<in> set (map run_id (runs ledger1)) then ''runs_pkey''
                                else ''idx_runs_idempotency_key'')), ledger1)"
    using used m ck by blast
  then have c4: "createRun ledger1 ''R2'' 9 (create_input (Some ''http_snapshot:2026-01-30:12:ab''))
      = (Inl (UniqueViolation ''idx_runs_idempotency_key''), ledger1)"
    using id2 by simp
  have fresh: "Some (idempotencyKey (start_input ''http_snapshot:2026-01-30:13:ab''))
        \<notin> set (map idempotency_key (runs ledger1)) \<and>
      ''R2'' \<notin> set (map run_id (runs ledger1))"
    by (simp add: ledger1_def run1_def start_input_def empty_db_def)
  obtain row where row:
    "startRun ledger1 ''R2'' 9 (start_input ''http_snapshot:2026-01-30:13:ab'') =
       (Inr \<lparr>sr_runId = ''R2'', sr_status = Running, sr_createdAt = 9\<rparr>,
        ledger1\<lparr>runs := runs ledger1 @ [row]\<rparr>)"
    "run_id row = ''R2''" "run_status row = Running"
    using unused fresh by blast
  have c2: "fst (startRun ledger1 ''R2'' 9 (start_input ''http_snapshot:2026-01-30:13:ab''))
     = Inr \<lparr>sr_runId = ''R2'', sr_status = Running, sr_createdAt = 9\<rparr>"
    using row(1) by simp
  have c3: "map (\<lambda>r. (run_id r, run_status r)) (runs (snd
     (startRun ledger1 ''R2'' 9 (start_input ''http_snapshot:2026-01-30:13:ab''))))
     = [(''R1'', Succeeded), (''R2'', Running)]"
    using row by (simp add: ledger1_def run1_def empty_db_def)
  have cfresh: "(cr_idempotencyKey (create_input (Some ''http_snapshot:2026-01-30:13:ab'')) = None \<or>
        cr_idempotencyKey (create_input (Some ''http_snapshot:2026-01-30:13:ab''))
          \<notin> set (map idempotency_key (runs ledger1))) \<and>
      ''R2'' \<notin> set (map run_id (runs ledger1)) \<and>
      (\<forall>p. cr_parentRunId (create_input (Some ''http_snapshot:2026-01-30:13:ab'')) = Some p
         \<longrightarrow> p \<in> set (map run_id (runs ledger1)))"
    by (simp add: ledger1_def run1_def create_input_def empty_db_def)
  obtain crow where crow:
    "createRun ledger1 ''R2'' 9 (create_input (Some ''http_snapshot:2026-01-30:13:ab'')) =
       (Inr crow, ledger1\<lparr>runs := runs ledger1 @ [crow]\<rparr>)"
    "run_id crow = ''R2''" "run_status crow = Running"
    "idempotency_key crow = cr_idempotencyKey (create_input (Some ''http_snapshot:2026-01-30:13:ab''))"
    using unused cfresh by blast
  have c5: "map (\<lambda>r. (run_id r, run_status r, idempotency_key r)) (runs (snd
     (createRun ledger1 ''R2'' 9 (create_input (Some ''http_snapshot:2026-01-30:13:ab'')))))
     = [(''R1'', Succeeded, Some ''http_snapshot:2026-01-30:12:ab''),
        (''R2'', Running, Some ''http_snapshot:2026-01-30:13:ab'')]"
    using crow by (simp add: ledger1_def run1_def create_input_def empty_db_def)
  from u c1 c2 c3 c4 c5 show ?thesis by blast
qed

lemma find_run_map_same:
  "(\<And>r. run_id (f r) = run_id r) \<Longrightarrow>
   find (\<lambda>r. run_id r = k) (map (\<lambda>r. if run_id r = k then f r else r) rs)
     = map_option f (find (\<lambda>r. run_id r = k) rs)"
  by (induction rs) auto

lemma find_run_map_other:
  "(\<And>r. run_id (f r) = run_id r) \<Longrightarrow> k' \<noteq> k \<Longrightarrow>
   find (\<lambda>r. run_id r = k') (map (\<lambda>r. if run_id r = k then f r else r) rs)
     = find (\<lambda>r. run_id r = k') rs"
  by (induction rs) auto

text \<open>
  C6, as stated, fails on the code: neither finishRun nor the collector's finishRun
  tests the run's status. Run \<open>R1\<close> succeeded at time 5; a second finish call at time 9
  with status 'failed' is accepted and overwrites status, finishedAt, error and the
  stats.
\<close>

theorem finishRun_terminal_counterexample:
  "run_status run1 = Succeeded \<and>
   fst (finishRun ledger1 ''R1'' FinFailed (Some ''boom'') 9) = Inr () \<and>
   map (\<lambda>r. (run_status r, finished_at r, run_error r))
     (runs (snd (finishRun ledger1 ''R1'' FinFailed (Some ''boom'') 9)))
     = [(Failed, Some 9, Some ''boom'')] \<and>
   fst (finishCollectorRun ledger1 ''R1'' FinFailed
          \<lparr>urlsAttempted = 2, urlsSucceeded = 0, itemsCreated = 0, bytesDownloaded = 0\<rparr>
          (Some ''boom'') 9) = Inr () \<and>
   map (\<lambda>r. (run_status r, finished_at r, run_error r, map_of (metrics r) ''stats''))
     (runs (snd (finishCollectorRun ledger1 ''R1'' FinFailed
          \<lparr>urlsAttempted = 2, urlsSucceeded = 0, itemsCreated = 0, bytesDownloaded = 0\<rparr>
          (Some ''boom'') 9)))
     = [(Failed, Some 9, Some ''boom'',
         Some (JObj [(''urlsAttempted'', JNum 2), (''urlsSucceeded'', JNum 0),
                     (''itemsCreated'', JNum 0), (''bytesDownloaded'', JNum 0)]))]"
  unfolding ledger1_def run1_def by code_simp

text \<open>
  C6, amended. A finish call always succeeds, whatever the status of the run. The run
  with that id gets the new status, \<open>finishedAt = now\<close> and the error (and, from the
  collector's finishRun, \<open>metrics.stats\<close> and \<open>metrics.finished\<close>); every other run stays
  as it is, and when no run has that id nothing changes.
\<close>

theorem finishRun_overwrites:
  "fst (finishRun d k st err now) = Inr () \<and>
   (\<forall>k'. getRun (snd (finishRun d k st err now)) k' =
      (if k' = k
       then map_option
              (\<lambda>r. r\<lparr>run_status := status_of st, finished_at := Some now, run_error := err\<rparr>)
              (getRun d k)
       else getRun d k')) \<and>
   fst (finishCollectorRun d k st stats err now) = Inr () \<and>
   (\<forall>k'. getRun (snd (finishCollectorRun d k st stats err now)) k' =
      (if k' = k
       then map_option
              (\<lambda>r. r\<lparr>run_status := status_of st, finished_at := Some now, run_error := err,
                      metrics := jsonb_set (jsonb_set (metrics r) ''stats'' (stats_json stats))
                                   ''finished'' (JBool True)\<rparr>)
              (getRun d k)
       else getRun d k'))"
  by (simp add: finishRun_def finishCollectorRun_def getRun_def find_run_map_same
      find_run_map_other)


section \<open>Properties of the item catalog\<close>

text \<open>
  C7, as stated, fails on the code: with exactly one payload present the INSERT can
  still be rejected. Here the payload is a blob reference that names no blob, and the
  foreign key of \<open>blob_id\<close> rejects the row.
\<close>

theorem createItem_one_payload_counterexample:
  "items_one_payload (ci_blob_id (note_input (Some ''sha256:0000'') None))
     (ci_text_content (note_input (Some ''sha256:0000'') None)) \<and>
   createItem blobs1 ''I1'' 3 (note_input (Some ''sha256:0000'') None)
     = (Inl (ForeignKeyViolation ''items_blob_id_fkey''), blobs1)"
  by (simp add: createItem_def items_one_payload_def note_input_def blobs1_def empty_db_def)

text \<open>
  C7, amended. createItem fails with the violation of the CHECK constraint
  \<open>items_one_payload\<close>, and stores nothing, when both a blob reference and inline text are
  present or when neither is. With exactly one of them present it stores the item when
  the item id is not in use and the blob reference, if that is the payload, names a
  blob of the store.
\<close>

theorem createItem_exactly_one_payload:
  "((ci_blob_id inp \<noteq> None \<and> ci_text_content inp \<noteq> None) \<or>
    (ci_blob_id inp = None \<and> ci_text_content inp = None) \<longrightarrow>
      createItem d i now inp = (Inl (CheckViolation ''items_one_payload''), d)) \<and>
   (((ci_blob_id inp \<noteq> None \<and> ci_text_content inp = None) \<or>
     (ci_blob_id inp = None \<and> ci_text_content inp \<noteq> None)) \<and>
    i \<notin> set (map item_id (items d)) \<and>
    (\<forall>b. ci_blob_id inp = Some b \<longrightarrow> b \<in> set (map blob_id (blobs d))) \<longrightarrow>
      (\<exists>row. createItem d i now inp = (Inr row, d\<lparr>items := items d @ [row]\<rparr>) \<and>
         item_id row = i \<and> item_blob_id row = ci_blob_id inp \<and>
         text_content row = ci_text_content inp))"
  by (auto simp: createItem_def items_one_payload_def Let_def split: option.splits)

theorem createItem_exactly_one_payload_witness:
  "createItem blobs1 ''I1'' 3 (note_input (Some ''sha256:2cf2'') (Some ''hello''))
     = (Inl (CheckViolation ''items_one_payload''), blobs1) \<and>
   createItem blobs1 ''I1'' 3 (note_input None None)
     = (Inl (CheckViolation ''items_one_payload''), blobs1) \<and>
   map (\<lambda>r. (item_id r, item_blob_id r, text_content r))
     (items (snd (createItem blobs1 ''I1'' 3 (note_input (Some ''sha256:2cf2'') None))))
     = [(''I1'', Some ''sha256:2cf2'', None)] \<and>
   map (\<lambda>r. (item_id r, item_blob_id r, text_content r))
     (items (snd (createItem blobs1 ''I1'' 3 (note_input None (Some ''hello'')))))
     = [(''I1'', None, Some ''hello'')]"
proof -
  have both: "createItem blobs1 ''I1'' 3 (note_input (Some ''sha256:2cf2'') (Some ''hello''))
     = (Inl (CheckViolation ''items_one_payload''), blobs1)"
    using createItem_exactly_one_payload
      [of "note_input (Some ''sha256:2cf2'') (Some ''hello'')" blobs1 "''I1''" 3]
    by (simp add: note_input_def)
  have neither: "createItem blobs1 ''I1'' 3 (note_input None None)
     = (Inl (CheckViolation ''items_one_payload''), blobs1)"
    using createItem_exactly_one_payload [of "note_input None None" blobs1 "''I1''" 3]
    by (simp add: note_input_def)
  obtain row1 where row1:
    "createItem blobs1 ''I1'' 3 (note_input (Some ''sha256:2cf2'') None)
       = (Inr row1, blobs1\<lparr>items := items blobs1 @ [row1]\<rparr>)"
    "item_id row1 = ''I1''" "item_blob_id row1 = Some ''sha256:2cf2''" "text_content row1 = None"
    using createItem_exactly_one_payload
      [of "note_input (Some ''sha256:2cf2'') None" blobs1 "''I1''" 3]
    by (auto simp: note_input_def blobs1_def empty_db_def)
  obtain row2 where row2:
    "createItem blobs1 ''I1'' 3 (note_input None (Some ''hello''))
       = (Inr row2, blobs1\<lparr>items := items blobs1 @ [row2]\<rparr>)"
    "item_id row2 = ''I1''" "item_blob_id row2 = None" "text_content row2 = Some ''hello''"
    using createItem_exactly_one_payload
      [of "note_input None (Some ''hello'')" blobs1 "''I1''" 3]
    by (auto simp: note_input_def blobs1_def empty_db_def)
  have c1: "map (\<lambda>r. (item_id r, item_blob_id r, text_content r))
     (items (snd (createItem blobs1 ''I1'' 3 (note_input (Some ''sha256:2cf2'') None))))
     = [(''I1'', Some ''sha256:2cf2'', None)]"
    using row1 by (simp add: blobs1_def empty_db_def)
  have c2: "map (\<lambda>r. (item_id r, item_blob_id r, text_content r))
     (items (snd (createItem blobs1 ''I1'' 3 (note_input None (Some ''hello'')))))
     = [(''I1'', None, Some ''hello'')]"
    using row2 by (simp add: blobs1_def empty_db_def)
  from both neither c1 c2 show ?thesis by blast
qed


section \<open>Properties of the collector run\<close>

text \<open>
  When collectUrl fails on a URL, the loop ends with an error whatever URLs follow, and
  what it leaves behind does not depend on them.
\<close>

lemma collectLoop_stops:
  assumes "collectUrl c w runId url observedAt = (Inl e, w1)"
  shows "\<exists>e'. fst (collectLoop c w runId observedAt (url # rest) results) = Inl e'"
    and "snd (collectLoop c w runId observedAt (url # rest) results) =
         snd (collectLoop c w runId observedAt [url] results)"
  using assms by (auto split: prod.splits sum.splits)

text \<open>
  C8. A failure on one URL does not abort the URLs after it, and the run succeeds when
  at least one item was produced and no fatal error occurred. The code does neither:
  collectHttpSnapshot logs the failure and throws it again, which ends its loop, and
  runCollector turns the caught error into the status 'failed'. Of the three URLs here
  the second answers 404: the first is stored as an item and a run output, the third is
  never collected, and the run is finished as 'failed' with no URL counted as succeeded.
\<close>

theorem runCollector_aborts_after_failure:
  "fst (runCollector ctx0 \<lparr>store = empty_db, seq = 0\<rparr> three_urls default_args) =
     Inr \<lparr>res_name = ''docs_seed'', res_type = ''http_snapshot'', res_status = CollFailed,
           res_urlsAttempted = 3, res_urlsSucceeded = 0, res_itemsCreated = 0,
           res_bytesDownloaded = 0,
           res_error = Some ''HTTP 404 for https://bad.example/''\<rparr> \<and>
   map external_ref (items (store (snd
       (runCollector ctx0 \<lparr>store = empty_db, seq = 0\<rparr> three_urls default_args)))) =
     [Some ''https://a.example/''] \<and>
   run_outputs (store (snd
       (runCollector ctx0 \<lparr>store = empty_db, seq = 0\<rparr> three_urls default_args))) =
     [(''ID0'', ''ID2'')] \<and>
   map (\<lambda>r. (run_id r, run_status r)) (runs (store (snd
       (runCollector ctx0 \<lparr>store = empty_db, seq = 0\<rparr> three_urls default_args)))) =
     [(''ID0'', Failed)] \<and>
   map (\<lambda>l. (level l, message l)) (run_logs (store (snd
       (runCollector ctx0 \<lparr>store = empty_db, seq = 0\<rparr> three_urls default_args)))) =
     [(Info, ''Starting http_snapshot collector''),
      (Info, ''Created new item ID2 for https://a.example/''),
      (Error, ''Failed to collect https://bad.example/''),
      (Error, ''Collector execution failed'')]"
  unfolding ctx0_def three_urls_def default_args_def by code_simp


end
